theory Spec2Isabelle
  imports Complex_Main "HOL-Library.AList"
begin

section \<open>Python values\<close>

text \<open>
  A Python \<open>str\<close> is the list of its Unicode code points, so that the Cyrillic
  literals of \<open>pybot.py\<close> are compared exactly as Python compares them. A naive local
  \<open>datetime\<close> is the number of microseconds since a fixed midnight; \<open>date\<close> is its
  calendar day.
\<close>

type_synonym pystr = "nat list"

type_synonym datetime = int

definition date :: "datetime \<Rightarrow> int" where
  "date t = t div 86400000000"

datatype py_error = IndexError | KeyError | ZeroDivisionError | OverflowError | ApiException

definition list_getitem :: "'a list \<Rightarrow> int \<Rightarrow> py_error + 'a" where
  "list_getitem xs i =
     (if 0 \<le> i \<and> i < int (length xs) then Inr (xs ! nat i)
      else if i < 0 \<and> - int (length xs) \<le> i then Inr (xs ! nat (int (length xs) + i))
      else Inl IndexError)"

definition dict_getitem :: "('k \<times> 'v) list \<Rightarrow> 'k \<Rightarrow> py_error + 'v" where
  "dict_getitem d k = (case map_of d k of Some v \<Rightarrow> Inr v | None \<Rightarrow> Inl KeyError)"

section \<open>Floats\<close>

text \<open>
  A finite Python \<open>float\<close> is the rational number it stands for. \<open>round_double\<close>
  rounds a rational to the nearest IEEE 754 double, ties to the even significand, with
  gradual underflow: the significand is an integer below \<open>2 ^ 53\<close> and the exponent is
  at least \<open>- 1074\<close>. It is used below the overflow threshold only.
  \<open>int_truediv\<close> is \<open>a / b\<close> on two \<open>int\<close>s, which Python rounds correctly from
  the exact quotient and which raises when the divisor is 0 or when the rounded quotient
  would not be finite, that is from \<open>2 ^ 1024 - 2 ^ 970\<close> on.
\<close>

fun bit_length :: "nat \<Rightarrow> nat" where
  "bit_length n = (if n = 0 then 0 else Suc (bit_length (n div 2)))"

declare bit_length.simps [simp del]

definition pow2 :: "int \<Rightarrow> rat" where
  "pow2 k = (if 0 \<le> k then 2 ^ nat k else 1 / 2 ^ nat (- k))"

definition floor_log2 :: "rat \<Rightarrow> int" where
  "floor_log2 a =
     (if 1 \<le> a then int (bit_length (nat \<lfloor>a\<rfloor>)) - 1
      else (let l = int (bit_length (nat \<lfloor>1 / a\<rfloor>))
            in if pow2 (1 - l) \<le> a then 1 - l else - l))"

definition round_half_even :: "rat \<Rightarrow> int" where
  "round_half_even x =
     (let f = \<lfloor>x\<rfloor>; d = x - of_int f
      in if d < 1 / 2 then f else if 1 / 2 < d then f + 1 else if even f then f else f + 1)"

definition round_double :: "rat \<Rightarrow> rat" where
  "round_double x =
     (if x = 0 then 0
      else (let a = \<bar>x\<bar>;
                ex = max (floor_log2 a - 52) (- 1074);
                m = round_half_even (a / pow2 ex)
            in sgn x * (of_int m * pow2 ex)))"

definition overflow_threshold :: rat where
  "overflow_threshold = 2 ^ 1024 - 2 ^ 970"

definition int_truediv :: "int \<Rightarrow> int \<Rightarrow> py_error + rat" where
  "int_truediv a b =
     (if b = 0 then Inl ZeroDivisionError
      else if overflow_threshold \<le> \<bar>of_int a / of_int b\<bar> then Inl OverflowError
      else Inr (round_double (of_int a / of_int b)))"

section \<open>Config: the question catalog, the points and the levels\<close>

text \<open>
  The three answers and the cancel button, as they are written at lines 150, 196, 197,
  267 and 276 of \<open>pybot.py\<close>, and the default first name of line 210.
\<close>

definition Vse :: pystr where
  "Vse = [1042, 1089, 1077]"

definition Moi_kontakty :: pystr where
  "Moi_kontakty = [1052, 1086, 1080, 32, 1082, 1086, 1085, 1090, 1072, 1082, 1090, 1099]"

definition Nikto :: pystr where
  "Nikto = [1053, 1080, 1082, 1090, 1086]"

definition Otmena :: pystr where
  "Otmena = [10060, 32, 1054, 1090, 1084, 1077, 1085, 1072]"

definition Polzovatel :: pystr where
  "Polzovatel = [1055, 1086, 1083, 1100, 1079, 1086, 1074, 1072, 1090, 1077, 1083, 1100]"

record question =
  q_id :: string
  q_text :: pystr
  q_risks :: "(pystr \<times> pystr) list"
  q_fix :: pystr

record level =
  l_name :: pystr
  l_color :: pystr
  l_desc :: pystr

definition phone_text :: pystr where
  "phone_text =
     [128241, 32, 1050, 1090, 1086, 32, 1074, 1080, 1076, 1080, 1090, 32, 1074, 1072, 1096,
      32, 1085, 1086, 1084, 1077, 1088, 32, 1090, 1077, 1083, 1077, 1092, 1086, 1085, 1072,
      63]"

definition phone_risk_Vse :: pystr where
  "phone_risk_Vse =
     [128308, 32, 60, 98, 62, 1042, 1067, 1057, 1054, 1050, 1048, 1049, 32, 1056, 1048,
      1057, 1050, 60, 47, 98, 62, 10, 8226, 32, 1053, 1086, 1084, 1077, 1088, 32, 1084,
      1086, 1075, 1091, 1090, 32, 1080, 1089, 1087, 1086, 1083, 1100, 1079, 1086, 1074,
      1072, 1090, 1100, 32, 1076, 1083, 1103, 32, 1089, 1087, 1072, 1084, 1072, 32, 1080,
      32, 1092, 1080, 1096, 1080, 1085, 1075, 1072, 10, 8226, 32, 1052, 1086, 1078, 1085,
      1086, 32, 1085, 1072, 1081, 1090, 1080, 32, 1074, 1072, 1089, 32, 1074, 32, 1089,
      1086, 1094, 1080, 1072, 1083, 1100, 1085, 1099, 1093, 32, 1089, 1077, 1090, 1103,
      1093, 10, 8226, 32, 1042, 1086, 1079, 1084, 1086, 1078, 1085, 1072, 32, 1087, 1086,
      1076, 1084, 1077, 1085, 1072, 32, 83, 73, 77, 45, 1082, 1072, 1088, 1090, 1099, 32,
      40, 83, 73, 77, 45, 115, 119, 97, 112, 41]"

definition phone_risk_Moi_kontakty :: pystr where
  "phone_risk_Moi_kontakty =
     [128993, 32, 60, 98, 62, 1057, 1056, 1045, 1044, 1053, 1048, 1049, 32, 1056, 1048,
      1057, 1050, 60, 47, 98, 62, 10, 8226, 32, 1050, 1086, 1085, 1090, 1072, 1082, 1090,
      1099, 32, 1084, 1086, 1075, 1091, 1090, 32, 1089, 1083, 1091, 1095, 1072, 1081, 1085,
      1086, 32, 1088, 1072, 1089, 1082, 1088, 1099, 1090, 1100, 32, 1085, 1086, 1084, 1077,
      1088, 10, 8226, 32, 1055, 1088, 1080, 32, 1091, 1090, 1077, 1095, 1082, 1077, 32,
      1090, 1077, 1083, 1077, 1092, 1086, 1085, 1072, 32, 1082, 1086, 1085, 1090, 1072,
      1082, 1090, 1086, 1074, 32, 45, 32, 1085, 1086, 1084, 1077, 1088, 32, 1076, 1086,
      1089, 1090, 1091, 1087, 1077, 1085]"

definition phone_risk_Nikto :: pystr where
  "phone_risk_Nikto =
     [128994, 32, 60, 98, 62, 1053, 1048, 1047, 1050, 1048, 1049, 32, 1056, 1048, 1057,
      1050, 60, 47, 98, 62, 10, 8226, 32, 1052, 1072, 1082, 1089, 1080, 1084, 1072, 1083,
      1100, 1085, 1072, 1103, 32, 1079, 1072, 1097, 1080, 1090, 1072, 32, 1085, 1086, 1084,
      1077, 1088, 1072, 10, 8226, 32, 1056, 1077, 1082, 1086, 1084, 1077, 1085, 1076, 1091,
      1077, 1084, 1072, 1103, 32, 1085, 1072, 1089, 1090, 1088, 1086, 1081, 1082, 1072]"

definition phone_fix :: pystr where
  "phone_fix =
     [1053, 1072, 1089, 1090, 1088, 1086, 1081, 1082, 1080, 32, 8594, 32, 1050, 1086, 1085,
      1092, 1080, 1076, 1077, 1085, 1094, 1080, 1072, 1083, 1100, 1085, 1086, 1089, 1090,
      1100, 32, 8594, 32, 1053, 1086, 1084, 1077, 1088, 32, 1090, 1077, 1083, 1077, 1092,
      1086, 1085, 1072]"

definition last_seen_text :: pystr where
  "last_seen_text =
     [9200, 32, 1050, 1090, 1086, 32, 1074, 1080, 1076, 1080, 1090, 44, 32, 1082, 1086,
      1075, 1076, 1072, 32, 1074, 1099, 32, 1073, 1099, 1083, 1080, 32, 1074, 32, 1089,
      1077, 1090, 1080, 63]"

definition last_seen_risk_Vse :: pystr where
  "last_seen_risk_Vse =
     [128308, 32, 60, 98, 62, 1042, 1067, 1057, 1054, 1050, 1048, 1049, 32, 1056, 1048,
      1057, 1050, 60, 47, 98, 62, 10, 8226, 32, 1052, 1086, 1078, 1085, 1086, 32, 1086,
      1090, 1089, 1083, 1077, 1076, 1080, 1090, 1100, 32, 1074, 1072, 1096, 32, 1075, 1088,
      1072, 1092, 1080, 1082, 32, 1072, 1082, 1090, 1080, 1074, 1085, 1086, 1089, 1090,
      1080, 10, 8226, 32, 1047, 1083, 1086, 1091, 1084, 1099, 1096, 1083, 1077, 1085, 1085,
      1080, 1082, 1080, 32, 1079, 1085, 1072, 1102, 1090, 32, 1082, 1086, 1075, 1076, 1072,
      32, 1074, 1099, 32, 1086, 1085, 1083, 1072, 1081, 1085, 10, 8226, 32, 1059, 1087,
      1088, 1086, 1097, 1072, 1077, 1090, 32, 1089, 1086, 1094, 1080, 1072, 1083, 1100,
      1085, 1091, 1102, 32, 1080, 1085, 1078, 1077, 1085, 1077, 1088, 1080, 1102]"

definition last_seen_risk_Moi_kontakty :: pystr where
  "last_seen_risk_Moi_kontakty =
     [128993, 32, 60, 98, 62, 1057, 1056, 1045, 1044, 1053, 1048, 1049, 32, 1056, 1048,
      1057, 1050, 60, 47, 98, 62, 10, 8226, 32, 1050, 1086, 1085, 1090, 1072, 1082, 1090,
      1099, 32, 1074, 1080, 1076, 1103, 1090, 32, 1074, 1072, 1096, 1091, 32, 1072, 1082,
      1090, 1080, 1074, 1085, 1086, 1089, 1090, 1100, 10, 8226, 32, 1052, 1086, 1075, 1091,
      1090, 32, 1086, 1087, 1088, 1077, 1076, 1077, 1083, 1080, 1090, 1100, 32, 1082, 1086,
      1075, 1076, 1072, 32, 1074, 1099, 32, 1089, 1087, 1080, 1090, 1077, 47, 1088, 1072,
      1073, 1086, 1090, 1072, 1077, 1090, 1077]"

definition last_seen_risk_Nikto :: pystr where
  "last_seen_risk_Nikto =
     [128994, 32, 60, 98, 62, 1053, 1048, 1047, 1050, 1048, 1049, 32, 1056, 1048, 1057,
      1050, 60, 47, 98, 62, 10, 8226, 32, 1055, 1086, 1083, 1085, 1072, 1103, 32, 1072,
      1085, 1086, 1085, 1080, 1084, 1085, 1086, 1089, 1090, 1100, 32, 1089, 1090, 1072,
      1090, 1091, 1089, 1072, 10, 8226, 32, 1056, 1077, 1082, 1086, 1084, 1077, 1085, 1076,
      1091, 1077, 1084, 1072, 1103, 32, 1085, 1072, 1089, 1090, 1088, 1086, 1081, 1082,
      1072]"

definition last_seen_fix :: pystr where
  "last_seen_fix =
     [1053, 1072, 1089, 1090, 1088, 1086, 1081, 1082, 1080, 32, 8594, 32, 1050, 1086, 1085,
      1092, 1080, 1076, 1077, 1085, 1094, 1080, 1072, 1083, 1100, 1085, 1086, 1089, 1090,
      1100, 32, 8594, 32, 1042, 1088, 1077, 1084, 1103, 32, 1087, 1086, 1089, 1083, 1077,
      1076, 1085, 1077, 1075, 1086, 32, 1087, 1086, 1089, 1077, 1097, 1077, 1085, 1080,
      1103]"

definition profile_photo_text :: pystr where
  "profile_photo_text =
     [128444, 65039, 32, 1050, 1090, 1086, 32, 1074, 1080, 1076, 1080, 1090, 32, 1074, 1072,
      1096, 1091, 32, 1092, 1086, 1090, 1086, 1075, 1088, 1072, 1092, 1080, 1102, 32, 1087,
      1088, 1086, 1092, 1080, 1083, 1103, 63]"

definition profile_photo_risk_Vse :: pystr where
  "profile_photo_risk_Vse =
     [128308, 32, 60, 98, 62, 1042, 1067, 1057, 1054, 1050, 1048, 1049, 32, 1056, 1048,
      1057, 1050, 60, 47, 98, 62, 10, 8226, 32, 1060, 1086, 1090, 1086, 32, 1084, 1086,
      1078, 1085, 1086, 32, 1080, 1089, 1087, 1086, 1083, 1100, 1079, 1086, 1074, 1072,
      1090, 1100, 32, 1076, 1083, 1103, 32, 1087, 1086, 1080, 1089, 1082, 1072, 32, 1087,
      1086, 32, 1080, 1079, 1086, 1073, 1088, 1072, 1078, 1077, 1085, 1080, 1102, 10, 8226,
      32, 1042, 1086, 1079, 1084, 1086, 1078, 1085, 1086, 1089, 1090, 1100, 32, 1089, 1086,
      1079, 1076, 1072, 1085, 1080, 1103, 32, 1092, 1077, 1081, 1082, 1086, 1074, 1099,
      1093, 32, 1072, 1082, 1082, 1072, 1091, 1085, 1090, 1086, 1074, 10, 8226, 32, 1057,
      1073, 1086, 1088, 32, 1073, 1080, 1086, 1084, 1077, 1090, 1088, 1080, 1095, 1077,
      1089, 1082, 1080, 1093, 32, 1076, 1072, 1085, 1085, 1099, 1093]"

definition profile_photo_risk_Moi_kontakty :: pystr where
  "profile_photo_risk_Moi_kontakty =
     [128993, 32, 60, 98, 62, 1057, 1056, 1045, 1044, 1053, 1048, 1049, 32, 1056, 1048,
      1057, 1050, 60, 47, 98, 62, 10, 8226, 32, 1054, 1075, 1088, 1072, 1085, 1080, 1095,
      1077, 1085, 1085, 1099, 1081, 32, 1082, 1088, 1091, 1075, 32, 1074, 1080, 1076, 1080,
      1084, 1086, 1089, 1090, 1080, 10, 8226, 32, 1056, 1080, 1089, 1082, 32, 1077, 1089,
      1083, 1080, 32, 1090, 1077, 1083, 1077, 1092, 1086, 1085, 32, 1082, 1086, 1085, 1090,
      1072, 1082, 1090, 1072, 32, 1089, 1082, 1086, 1084, 1087, 1088, 1086, 1084, 1077,
      1090, 1080, 1088, 1086, 1074, 1072, 1085]"

definition profile_photo_risk_Nikto :: pystr where
  "profile_photo_risk_Nikto =
     [128994, 32, 60, 98, 62, 1053, 1048, 1047, 1050, 1048, 1049, 32, 1056, 1048, 1057,
      1050, 60, 47, 98, 62, 10, 8226, 32, 1052, 1072, 1082, 1089, 1080, 1084, 1072, 1083,
      1100, 1085, 1072, 1103, 32, 1087, 1088, 1080, 1074, 1072, 1090, 1085, 1086, 1089,
      1090, 1100, 10, 8226, 32, 1056, 1077, 1082, 1086, 1084, 1077, 1085, 1076, 1091, 1077,
      1084, 1072, 1103, 32, 1085, 1072, 1089, 1090, 1088, 1086, 1081, 1082, 1072]"

definition profile_photo_fix :: pystr where
  "profile_photo_fix =
     [1053, 1072, 1089, 1090, 1088, 1086, 1081, 1082, 1080, 32, 8594, 32, 1050, 1086, 1085,
      1092, 1080, 1076, 1077, 1085, 1094, 1080, 1072, 1083, 1100, 1085, 1086, 1089, 1090,
      1100, 32, 8594, 32, 1060, 1086, 1090, 1086, 1075, 1088, 1072, 1092, 1080, 1103, 32,
      1087, 1088, 1086, 1092, 1080, 1083, 1103]"

definition groups_text :: pystr where
  "groups_text =
     [128101, 32, 1050, 1090, 1086, 32, 1084, 1086, 1078, 1077, 1090, 32, 1076, 1086, 1073,
      1072, 1074, 1083, 1103, 1090, 1100, 32, 1074, 1072, 1089, 32, 1074, 32, 1075, 1088,
      1091, 1087, 1087, 1099, 63]"

definition groups_risk_Vse :: pystr where
  "groups_risk_Vse =
     [128308, 32, 60, 98, 62, 1042, 1067, 1057, 1054, 1050, 1048, 1049, 32, 1056, 1048,
      1057, 1050, 60, 47, 98, 62, 10, 8226, 32, 1042, 1072, 1089, 32, 1084, 1086, 1075,
      1091, 1090, 32, 1076, 1086, 1073, 1072, 1074, 1083, 1103, 1090, 1100, 32, 1074, 32,
      1089, 1087, 1072, 1084, 45, 1095, 1072, 1090, 1099, 10, 8226, 32, 1052, 1086, 1096,
      1077, 1085, 1085, 1080, 1095, 1077, 1089, 1082, 1080, 1077, 32, 1075, 1088, 1091,
      1087, 1087, 1099, 32, 1080, 32, 1092, 1080, 1096, 1080, 1085, 1075, 10, 8226, 32,
      1055, 1086, 1090, 1077, 1088, 1103, 32, 1082, 1086, 1085, 1090, 1088, 1086, 1083,
      1103, 32, 1085, 1072, 1076, 32, 1074, 1089, 1090, 1091, 1087, 1083, 1077, 1085, 1080,
      1077, 1084]"

definition groups_risk_Moi_kontakty :: pystr where
  "groups_risk_Moi_kontakty =
     [128993, 32, 60, 98, 62, 1057, 1056, 1045, 1044, 1053, 1048, 1049, 32, 1056, 1048,
      1057, 1050, 60, 47, 98, 62, 10, 8226, 32, 1058, 1086, 1083, 1100, 1082, 1086, 32,
      1079, 1085, 1072, 1082, 1086, 1084, 1099, 1077, 32, 1084, 1086, 1075, 1091, 1090, 32,
      1076, 1086, 1073, 1072, 1074, 1083, 1103, 1090, 1100, 10, 8226, 32, 1056, 1080, 1089,
      1082, 32, 1077, 1089, 1083, 1080, 32, 1082, 1086, 1085, 1090, 1072, 1082, 1090, 32,
      1089, 1082, 1086, 1084, 1087, 1088, 1086, 1084, 1077, 1090, 1080, 1088, 1086, 1074,
      1072, 1085]"

definition groups_risk_Nikto :: pystr where
  "groups_risk_Nikto =
     [128994, 32, 60, 98, 62, 1053, 1048, 1047, 1050, 1048, 1049, 32, 1056, 1048, 1057,
      1050, 60, 47, 98, 62, 10, 8226, 32, 1055, 1086, 1083, 1085, 1099, 1081, 32, 1082,
      1086, 1085, 1090, 1088, 1086, 1083, 1100, 32, 1085, 1072, 1076, 32, 1075, 1088, 1091,
      1087, 1087, 1072, 1084, 1080, 10, 8226, 32, 1056, 1077, 1082, 1086, 1084, 1077, 1085,
      1076, 1091, 1077, 1084, 1072, 1103, 32, 1085, 1072, 1089, 1090, 1088, 1086, 1081,
      1082, 1072]"

definition groups_fix :: pystr where
  "groups_fix =
     [1053, 1072, 1089, 1090, 1088, 1086, 1081, 1082, 1080, 32, 8594, 32, 1050, 1086, 1085,
      1092, 1080, 1076, 1077, 1085, 1094, 1080, 1072, 1083, 1100, 1085, 1086, 1089, 1090,
      1100, 32, 8594, 32, 1043, 1088, 1091, 1087, 1087, 1099, 32, 1080, 32, 1082, 1072,
      1085, 1072, 1083, 1099]"

definition forwarding_text :: pystr where
  "forwarding_text =
     [128279, 32, 1050, 1090, 1086, 32, 1084, 1086, 1078, 1077, 1090, 32, 1089, 1086, 1079,
      1076, 1072, 1074, 1072, 1090, 1100, 32, 1089, 1089, 1099, 1083, 1082, 1080, 32, 1085,
      1072, 32, 1074, 1072, 1096, 32, 1087, 1088, 1086, 1092, 1080, 1083, 1100, 63]"

definition forwarding_risk_Vse :: pystr where
  "forwarding_risk_Vse =
     [128308, 32, 60, 98, 62, 1042, 1067, 1057, 1054, 1050, 1048, 1049, 32, 1056, 1048,
      1057, 1050, 60, 47, 98, 62, 10, 8226, 32, 1042, 1072, 1096, 32, 1087, 1088, 1086,
      1092, 1080, 1083, 1100, 32, 1084, 1086, 1075, 1091, 1090, 32, 1088, 1077, 1087, 1086,
      1089, 1090, 1080, 1090, 1100, 32, 1075, 1076, 1077, 32, 1091, 1075, 1086, 1076, 1085,
      1086, 10, 8226, 32, 1059, 1087, 1088, 1086, 1097, 1072, 1077, 1090, 32, 1089, 1073,
      1086, 1088, 32, 1080, 1085, 1092, 1086, 1088, 1084, 1072, 1094, 1080, 1080, 32, 1086,
      32, 1074, 1072, 1089, 10, 8226, 32, 1057, 1087, 1072, 1084, 32, 1095, 1077, 1088,
      1077, 1079, 32, 1091, 1087, 1086, 1084, 1080, 1085, 1072, 1085, 1080, 1103]"

definition forwarding_risk_Moi_kontakty :: pystr where
  "forwarding_risk_Moi_kontakty =
     [128993, 32, 60, 98, 62, 1057, 1056, 1045, 1044, 1053, 1048, 1049, 32, 1056, 1048,
      1057, 1050, 60, 47, 98, 62, 10, 8226, 32, 1054, 1075, 1088, 1072, 1085, 1080, 1095,
      1077, 1085, 1085, 1099, 1081, 32, 1082, 1088, 1091, 1075, 10, 8226, 32, 1056, 1080,
      1089, 1082, 32, 1085, 1077, 1082, 1086, 1085, 1090, 1088, 1086, 1083, 1080, 1088,
      1091, 1077, 1084, 1086, 1075, 1086, 32, 1088, 1072, 1089, 1087, 1088, 1086, 1089,
      1090, 1088, 1072, 1085, 1077, 1085, 1080, 1103]"

definition forwarding_risk_Nikto :: pystr where
  "forwarding_risk_Nikto =
     [128994, 32, 60, 98, 62, 1053, 1048, 1047, 1050, 1048, 1049, 32, 1056, 1048, 1057,
      1050, 60, 47, 98, 62, 10, 8226, 32, 1052, 1072, 1082, 1089, 1080, 1084, 1072, 1083,
      1100, 1085, 1072, 1103, 32, 1079, 1072, 1097, 1080, 1090, 1072, 32, 1086, 1090, 32,
      1091, 1087, 1086, 1084, 1080, 1085, 1072, 1085, 1080, 1081, 10, 8226, 32, 1056, 1077,
      1082, 1086, 1084, 1077, 1085, 1076, 1091, 1077, 1084, 1072, 1103, 32, 1085, 1072,
      1089, 1090, 1088, 1086, 1081, 1082, 1072]"

definition forwarding_fix :: pystr where
  "forwarding_fix =
     [1053, 1072, 1089, 1090, 1088, 1086, 1081, 1082, 1080, 32, 8594, 32, 1050, 1086, 1085,
      1092, 1080, 1076, 1077, 1085, 1094, 1080, 1072, 1083, 1100, 1085, 1086, 1089, 1090,
      1100, 32, 8594, 32, 1055, 1077, 1088, 1077, 1089, 1099, 1083, 1082, 1072, 32, 1089,
      1086, 1086, 1073, 1097, 1077, 1085, 1080, 1081]"

definition QUESTIONS :: "question list" where
  "QUESTIONS =
    [
     \<lparr>q_id = ''phone'', q_text = phone_text,
      q_risks = [(Vse, phone_risk_Vse), (Moi_kontakty, phone_risk_Moi_kontakty), (Nikto, phone_risk_Nikto)],
      q_fix = phone_fix\<rparr>,
     \<lparr>q_id = ''last_seen'', q_text = last_seen_text,
      q_risks = [(Vse, last_seen_risk_Vse), (Moi_kontakty, last_seen_risk_Moi_kontakty), (Nikto, last_seen_risk_Nikto)],
      q_fix = last_seen_fix\<rparr>,
     \<lparr>q_id = ''profile_photo'', q_text = profile_photo_text,
      q_risks = [(Vse, profile_photo_risk_Vse), (Moi_kontakty, profile_photo_risk_Moi_kontakty), (Nikto, profile_photo_risk_Nikto)],
      q_fix = profile_photo_fix\<rparr>,
     \<lparr>q_id = ''groups'', q_text = groups_text,
      q_risks = [(Vse, groups_risk_Vse), (Moi_kontakty, groups_risk_Moi_kontakty), (Nikto, groups_risk_Nikto)],
      q_fix = groups_fix\<rparr>,
     \<lparr>q_id = ''forwarding'', q_text = forwarding_text,
      q_risks = [(Vse, forwarding_risk_Vse), (Moi_kontakty, forwarding_risk_Moi_kontakty), (Nikto, forwarding_risk_Nikto)],
      q_fix = forwarding_fix\<rparr>
    ]"

definition POINTS :: "(pystr \<times> int) list" where
  "POINTS = [(Vse, 0), (Moi_kontakty, 1), (Nikto, 2)]"

definition level_10_name :: pystr where
  "level_10_name =
     [127881, 32, 1048, 1044, 1045, 1040, 1051, 1068, 1053, 1054]"

definition level_10_color :: pystr where
  "level_10_color =
     [128994]"

definition level_10_desc :: pystr where
  "level_10_desc =
     [1042, 1099, 32, 1093, 1072, 1082, 1077, 1088, 32, 1091, 1088, 1086, 1074, 1085, 1103,
      32, 1087, 1072, 1088, 1072, 1085, 1086, 1081, 1080, 33, 32, 1048, 1076, 1077, 1072,
      1083, 1100, 1085, 1072, 1103, 32, 1079, 1072, 1097, 1080, 1090, 1072, 46]"

definition level_9_name :: pystr where
  "level_9_name =
     [9989, 32, 1054, 1058, 1051, 1048, 1063, 1053, 1054]"

definition level_9_color :: pystr where
  "level_9_color =
     [128994]"

definition level_9_desc :: pystr where
  "level_9_desc =
     [1055, 1086, 1095, 1090, 1080, 32, 1080, 1076, 1077, 1072, 1083, 1100, 1085, 1086, 46,
      32, 1052, 1086, 1078, 1085, 1086, 32, 1088, 1072, 1089, 1089, 1083, 1072, 1073, 1080,
      1090, 1100, 1089, 1103, 46]"

definition level_8_name :: pystr where
  "level_8_name =
     [128077, 32, 1061, 1054, 1056, 1054, 1064, 1054]"

definition level_8_color :: pystr where
  "level_8_color =
     [128994]"

definition level_8_desc :: pystr where
  "level_8_desc =
     [1061, 1086, 1088, 1086, 1096, 1072, 1103, 32, 1079, 1072, 1097, 1080, 1090, 1072, 46,
      32, 1053, 1077, 1073, 1086, 1083, 1100, 1096, 1080, 1077, 32, 1088, 1080, 1089, 1082,
      1080, 46]"

definition level_7_name :: pystr where
  "level_7_name =
     [9888, 65039, 32, 1053, 1054, 1056, 1052, 1040, 1051, 1068, 1053, 1054]"

definition level_7_color :: pystr where
  "level_7_color =
     [128993]"

definition level_7_desc :: pystr where
  "level_7_desc =
     [1057, 1088, 1077, 1076, 1085, 1080, 1081, 32, 1091, 1088, 1086, 1074, 1077, 1085,
      1100, 46, 32, 1045, 1089, 1090, 1100, 32, 1095, 1090, 1086, 32, 1091, 1083, 1091,
      1095, 1096, 1080, 1090, 1100, 46]"

definition level_6_name :: pystr where
  "level_6_name =
     [9888, 65039, 32, 1059, 1044, 1054, 1042, 1051, 1045, 1058, 1042, 1054, 1056, 1048,
      1058, 1045, 1051, 1068, 1053, 1054]"

definition level_6_color :: pystr where
  "level_6_color =
     [128993]"

definition level_6_desc :: pystr where
  "level_6_desc =
     [1055, 1088, 1080, 1077, 1084, 1083, 1077, 1084, 1086, 44, 32, 1085, 1086, 32, 1085,
      1091, 1078, 1085, 1086, 32, 1088, 1072, 1073, 1086, 1090, 1072, 1090, 1100, 46]"

definition level_5_name :: pystr where
  "level_5_name =
     [128308, 32, 1058, 1056, 1045, 1042, 1054, 1043, 1040]"

definition level_5_color :: pystr where
  "level_5_color =
     [128308]"

definition level_5_desc :: pystr where
  "level_5_desc =
     [1053, 1080, 1079, 1082, 1072, 1103, 32, 1079, 1072, 1097, 1080, 1090, 1072, 46, 32,
      1042, 1099, 32, 1074, 32, 1079, 1086, 1085, 1077, 32, 1088, 1080, 1089, 1082, 1072,
      46]"

definition level_4_name :: pystr where
  "level_4_name =
     [128308, 32, 1054, 1055, 1040, 1057, 1053, 1054]"

definition level_4_color :: pystr where
  "level_4_color =
     [128308]"

definition level_4_desc :: pystr where
  "level_4_desc =
     [1054, 1087, 1072, 1089, 1085, 1099, 1081, 32, 1091, 1088, 1086, 1074, 1077, 1085,
      1100, 46, 32, 1057, 1088, 1086, 1095, 1085, 1086, 32, 1084, 1077, 1085, 1103, 1081,
      1090, 1077, 32, 1085, 1072, 1089, 1090, 1088, 1086, 1081, 1082, 1080, 33]"

definition level_3_name :: pystr where
  "level_3_name =
     [128680, 32, 1050, 1056, 1048, 1058, 1048, 1063, 1045, 1057, 1050, 1048]"

definition level_3_color :: pystr where
  "level_3_color =
     [128308]"

definition level_3_desc :: pystr where
  "level_3_desc =
     [1050, 1088, 1080, 1090, 1080, 1095, 1077, 1089, 1082, 1080, 32, 1085, 1080, 1079,
      1082, 1072, 1103, 32, 1079, 1072, 1097, 1080, 1090, 1072, 33]"

definition level_2_name :: pystr where
  "level_2_name =
     [128128, 32, 1050, 1040, 1058, 1040, 1057, 1058, 1056, 1054, 1060, 1040]"

definition level_2_color :: pystr where
  "level_2_color =
     [128128]"

definition level_2_desc :: pystr where
  "level_2_desc =
     [1042, 1072, 1096, 1080, 32, 1076, 1072, 1085, 1085, 1099, 1077, 32, 1087, 1086, 1083,
      1085, 1086, 1089, 1090, 1100, 1102, 32, 1091, 1103, 1079, 1074, 1080, 1084, 1099, 33]"

definition level_1_name :: pystr where
  "level_1_name =
     [128128, 32, 1040, 1055, 1054, 1050, 1040, 1051, 1048, 1055, 1057, 1048, 1057]"

definition level_1_color :: pystr where
  "level_1_color =
     [128128]"

definition level_1_desc :: pystr where
  "level_1_desc =
     [1053, 1077, 1084, 1077, 1076, 1083, 1077, 1085, 1085, 1086, 32, 1085, 1072, 1089,
      1090, 1088, 1086, 1081, 1090, 1077, 32, 1087, 1088, 1080, 1074, 1072, 1090, 1085,
      1086, 1089, 1090, 1100, 33]"

definition level_0_name :: pystr where
  "level_0_name =
     [9762, 65039, 32, 1071, 1044, 1045, 1056, 1053, 1067, 1049, 32, 1059, 1056, 1054, 1042,
      1045, 1053, 1068]"

definition level_0_color :: pystr where
  "level_0_color =
     [9762, 65039]"

definition level_0_desc :: pystr where
  "level_0_desc =
     [1042, 1099, 32, 1074, 1086, 1086, 1073, 1097, 1077, 32, 1085, 1077, 32, 1089, 1082,
      1088, 1099, 1074, 1072, 1077, 1090, 1077, 1089, 1100, 63, 33]"

definition LEVELS :: "(int \<times> level) list" where
  "LEVELS =
    [
     (10, \<lparr>l_name = level_10_name, l_color = level_10_color, l_desc = level_10_desc\<rparr>),
     (9, \<lparr>l_name = level_9_name, l_color = level_9_color, l_desc = level_9_desc\<rparr>),
     (8, \<lparr>l_name = level_8_name, l_color = level_8_color, l_desc = level_8_desc\<rparr>),
     (7, \<lparr>l_name = level_7_name, l_color = level_7_color, l_desc = level_7_desc\<rparr>),
     (6, \<lparr>l_name = level_6_name, l_color = level_6_color, l_desc = level_6_desc\<rparr>),
     (5, \<lparr>l_name = level_5_name, l_color = level_5_color, l_desc = level_5_desc\<rparr>),
     (4, \<lparr>l_name = level_4_name, l_color = level_4_color, l_desc = level_4_desc\<rparr>),
     (3, \<lparr>l_name = level_3_name, l_color = level_3_color, l_desc = level_3_desc\<rparr>),
     (2, \<lparr>l_name = level_2_name, l_color = level_2_color, l_desc = level_2_desc\<rparr>),
     (1, \<lparr>l_name = level_1_name, l_color = level_1_color, l_desc = level_1_desc\<rparr>),
     (0, \<lparr>l_name = level_0_name, l_color = level_0_color, l_desc = level_0_desc\<rparr>)
    ]"

section \<open>UserSession\<close>

record AnswerRecord =
  question_id :: string
  answer :: pystr
  points :: int
  timestamp :: datetime

record UserSession =
  user_id :: int
  answers :: "AnswerRecord list"
  current_question :: int
  score :: int
  start_time :: datetime
  username :: pystr
  first_name :: pystr

definition UserSession_init :: "datetime \<Rightarrow> int \<Rightarrow> UserSession" where
  "UserSession_init t uid =
     \<lparr>user_id = uid, answers = [], current_question = 0, score = 0,
      start_time = t, username = [], first_name = []\<rparr>"

definition add_answer :: "datetime \<Rightarrow> string \<Rightarrow> pystr \<Rightarrow> int \<Rightarrow> UserSession \<Rightarrow> UserSession" where
  "add_answer t qid a p s =
     s\<lparr>answers := answers s @ [\<lparr>question_id = qid, answer = a, points = p, timestamp = t\<rparr>],
       score := score s + p\<rparr>"

definition is_completed :: "UserSession \<Rightarrow> bool" where
  "is_completed s = (current_question s \<ge> int (length QUESTIONS))"

section \<open>The bot's state and what it sends\<close>

text \<open>
  The global dict \<open>sessions\<close> is an association list in insertion order:
  \<open>sessions[k] = v\<close> is \<open>AList.update k v\<close>, \<open>sessions.pop(k, None)\<close> is
  \<open>AList.delete k\<close>, \<open>sessions.get(k)\<close> is \<open>map_of sessions k\<close>. A session object
  is reached only through the dict, so a mutation of the object is an update of its
  entry. Every call of the Telegram API is appended to \<open>outbox\<close>; a message is kept as
  the values that are formatted into its text, not as the text. All clock readings of one
  handler are one value \<open>now\<close>, so the pause of one second after a risk explanation is
  not part of the model; neither is the log. The handlers run one after the other; the
  worker threads of the library, which may run two handlers at a time, are outside this
  embedding.

  The handlers come twice. In the sections \<open>Handlers\<close> and \<open>Dispatch\<close> every call of
  the Telegram API returns; this is the program as long as the transport delivers. In the
  section \<open>A transport that may raise\<close> a call may raise instead, and the handler ends
  there with the state as it is at that point. The two agree when every call returns
  (lemma \<open>dispatch_net_reliable\<close>).
\<close>

record tg_user =
  u_id :: int
  u_username :: "pystr option"
  u_first_name :: "pystr option"

record tg_message =
  chat_id :: int
  from_user :: tg_user
  m_text :: pystr

record tg_call =
  call_id :: string
  call_data :: string
  call_chat_id :: int

datatype markup =
    NoMarkup
  | InlineKeyboardMarkup string
  | ReplyKeyboardMarkup "pystr list list"
  | ReplyKeyboardRemove

record report =
  r_level :: level
  r_first_name :: pystr
  r_date :: datetime
  r_minutes :: int
  r_seconds :: int
  r_score :: int
  r_answers_count :: "(pystr \<times> int) list"
  r_weak_points :: "(question \<times> AnswerRecord) list"
  r_visual_bar :: "bool list"

datatype content =
    Welcome "pystr option"
  | RestartHint
  | StartHint
  | QuestionPrompt int int pystr
  | CancelNotice
  | RiskExplanation pystr pystr pystr
  | FinalReport report
  | CheckStats nat rat rat
  | AdminOnly
  | BotStats nat nat rat rat
  | VersionInfo
  | UnknownReply nat

datatype effect =
    SendMessage int content markup
  | AnswerCallbackQuery string

record world =
  sessions :: "(int \<times> UserSession) list"
  outbox :: "effect list"
  process_start_time :: datetime

record env =
  now :: datetime
  choice :: nat

definition send_message :: "int \<Rightarrow> content \<Rightarrow> markup \<Rightarrow> world \<Rightarrow> world" where
  "send_message cid c m w = w\<lparr>outbox := outbox w @ [SendMessage cid c m]\<rparr>"

definition create_keyboard :: markup where
  "create_keyboard = ReplyKeyboardMarkup [[Vse, Moi_kontakty, Nikto], [Otmena]]"

definition remove_keyboard :: markup where
  "remove_keyboard = ReplyKeyboardRemove"

section \<open>Aggregate statistics\<close>

text \<open>
  \<open>calculate_average_score\<close> and \<open>calculate_percentile\<close> (lines 404 to 415) read the
  global dict, which is their first argument here, and return a \<open>float\<close>. In the
  percentile the quotient is a float of at most 1, so its product with 100 is far from
  overflow and is rounded once more. \<open>sessions_today\<close> is the list comprehension of
  lines 394 and 429.
\<close>

definition sessions_today :: "datetime \<Rightarrow> (int \<times> UserSession) list \<Rightarrow> nat" where
  "sessions_today t ss = length (filter (\<lambda>s. date (start_time s) = date t) (map snd ss))"

definition calculate_average_score :: "(int \<times> UserSession) list \<Rightarrow> py_error + rat" where
  "calculate_average_score ss =
     (if ss = [] then Inr 0
      else let total = sum_list (map (\<lambda>s. score s) (map snd ss))
           in int_truediv total (int (length ss)))"

definition calculate_percentile ::
    "(int \<times> UserSession) list \<Rightarrow> int \<Rightarrow> py_error + rat" where
  "calculate_percentile ss sc =
     (if ss = [] then Inr 100
      else let scores = map (\<lambda>s. score s) (map snd ss);
               lower_scores = length (filter (\<lambda>s. s < sc) scores)
           in case int_truediv (int lower_scores) (int (length scores)) of
                Inl err \<Rightarrow> Inl err
              | Inr q \<Rightarrow> Inr (round_double (q * 100)))"

section \<open>Handlers\<close>

text \<open>
  Each handler takes the state and returns the exception it raised, if any, with the state
  it left behind. \<open>handle_start\<close> is lines 203 to 237: the two attribute assignments
  after the store of the new session read the key that was just written, so the three
  statements are one update.
\<close>

definition handle_start :: "env \<Rightarrow> tg_message \<Rightarrow> world \<Rightarrow> py_error option \<times> world" where
  "handle_start e message w =
     (let user = from_user message;
          cid = chat_id message;
          session = (UserSession_init (now e) cid)
            \<lparr>username := (case u_username user of None \<Rightarrow> [] | Some n \<Rightarrow> n),
             first_name := (case u_first_name user of None \<Rightarrow> Polzovatel
                            | Some n \<Rightarrow> if n = [] then Polzovatel else n)\<rparr>;
          w1 = w\<lparr>sessions := AList.update cid session (sessions w)\<rparr>
      in (None, send_message cid (Welcome (u_first_name user))
                  (InlineKeyboardMarkup ''start_check'') w1))"

text \<open>Lines 250 to 265 and 239 to 248.\<close>

definition ask_question :: "int \<Rightarrow> world \<Rightarrow> py_error option \<times> world" where
  "ask_question cid w =
     (case map_of (sessions w) cid of
        None \<Rightarrow> (None, w)
      | Some session \<Rightarrow>
          if is_completed session then (None, w)
          else (case list_getitem QUESTIONS (current_question session) of
                  Inl err \<Rightarrow> (Some err, w)
                | Inr q \<Rightarrow>
                    (None, send_message cid
                       (QuestionPrompt (current_question session + 1) (int (length QUESTIONS))
                          (q_text q))
                       create_keyboard w)))"

definition start_check_callback :: "tg_call \<Rightarrow> world \<Rightarrow> py_error option \<times> world" where
  "start_check_callback call w =
     (let cid = call_chat_id call
      in if map_of (sessions w) cid = None
         then (None, send_message cid RestartHint NoMarkup w)
         else ask_question cid (w\<lparr>outbox := outbox w @ [AnswerCallbackQuery (call_id call)]\<rparr>))"

text \<open>Lines 298 to 315.\<close>

definition send_risk_explanation ::
    "int \<Rightarrow> question \<Rightarrow> pystr \<Rightarrow> world \<Rightarrow> py_error option \<times> world" where
  "send_risk_explanation cid q a w =
     (case dict_getitem (q_risks q) a of
        Inl err \<Rightarrow> (Some err, w)
      | Inr risk_text \<Rightarrow>
          (None, send_message cid (RiskExplanation a risk_text (q_fix q)) remove_keyboard w))"

text \<open>
  \<open>send_final_report\<close>, lines 317 to 402. \<open>levels_get\<close> is
  \<open>Config.LEVELS.get(score, Config.LEVELS[0])\<close> of line 323, where Python evaluates the
  default first; \<open>count_answers\<close> is the loop of lines 345 and 346 over the dict of
  line 344, \<open>weak_points_loop\<close> the loop of lines 357 to 360. The statistics of lines
  392 to 401 are computed on the store as it is when the report has been sent. The
  minutes and seconds of lines 326 and 327 are taken from the float
  \<open>total_seconds()\<close>; for durations below \<open>2 ^ 53\<close> microseconds (285 years) they are
  the integer quotients written here.
\<close>

definition levels_get :: "int \<Rightarrow> py_error + level" where
  "levels_get sc =
     (case dict_getitem LEVELS 0 of
        Inl err \<Rightarrow> Inl err
      | Inr dflt \<Rightarrow> Inr (case map_of LEVELS sc of None \<Rightarrow> dflt | Some l \<Rightarrow> l))"

fun count_answers ::
    "AnswerRecord list \<Rightarrow> (pystr \<times> int) list \<Rightarrow> py_error + (pystr \<times> int) list" where
  "count_answers [] cnt = Inr cnt"
| "count_answers (ans # rest) cnt =
     (case map_of cnt (answer ans) of
        None \<Rightarrow> Inl KeyError
      | Some n \<Rightarrow> count_answers rest (AList.update (answer ans) (n + 1) cnt))"

fun weak_points_loop ::
    "nat \<Rightarrow> AnswerRecord list \<Rightarrow> (question \<times> AnswerRecord) list
       \<Rightarrow> py_error + (question \<times> AnswerRecord) list" where
  "weak_points_loop i [] acc = Inr acc"
| "weak_points_loop i (ans # rest) acc =
     (case list_getitem QUESTIONS (int i) of
        Inl err \<Rightarrow> Inl err
      | Inr q \<Rightarrow>
          weak_points_loop (Suc i) rest (if points ans < 2 then acc @ [(q, ans)] else acc))"

definition send_final_report :: "datetime \<Rightarrow> int \<Rightarrow> world \<Rightarrow> py_error option \<times> world" where
  "send_final_report t cid w =
     (case map_of (sessions w) cid of
        None \<Rightarrow> (None, w)
      | Some session \<Rightarrow>
          (case levels_get (score session) of
             Inl err \<Rightarrow> (Some err, w)
           | Inr lvl \<Rightarrow>
               (case count_answers (answers session) [(Vse, 0), (Moi_kontakty, 0), (Nikto, 0)] of
                  Inl err \<Rightarrow> (Some err, w)
                | Inr answers_count \<Rightarrow>
                    (case weak_points_loop 0 (answers session) [] of
                       Inl err \<Rightarrow> (Some err, w)
                     | Inr weak_points \<Rightarrow>
                         (let duration = t - start_time session;
                              rep = \<lparr>r_level = lvl,
                                     r_first_name = first_name session,
                                     r_date = t,
                                     r_minutes = duration div 60000000,
                                     r_seconds = (duration mod 60000000) div 1000000,
                                     r_score = score session,
                                     r_answers_count = answers_count,
                                     r_weak_points = weak_points,
                                     r_visual_bar = map (\<lambda>i. int i < score session) [0..<10]\<rparr>;
                              w1 = send_message cid (FinalReport rep) remove_keyboard w
                          in case calculate_average_score (sessions w1) of
                               Inl err \<Rightarrow> (Some err, w1)
                             | Inr average \<Rightarrow>
                                 (case calculate_percentile (sessions w1) (score session) of
                                    Inl err \<Rightarrow> (Some err, w1)
                                  | Inr percentile \<Rightarrow>
                                      (None, send_message cid
                                         (CheckStats (sessions_today t (sessions w1))
                                            average percentile)
                                         NoMarkup w1)))))))"

text \<open>
  \<open>handle_answer\<close>, lines 267 to 296. The entry of the chat is removed (line 294) when
  \<open>send_final_report\<close> has returned.
\<close>

definition handle_answer :: "env \<Rightarrow> tg_message \<Rightarrow> world \<Rightarrow> py_error option \<times> world" where
  "handle_answer e message w =
     (let cid = chat_id message
      in case map_of (sessions w) cid of
           None \<Rightarrow> (None, send_message cid StartHint NoMarkup w)
         | Some session \<Rightarrow>
             if m_text message = Otmena
             then (let w1 = send_message cid CancelNotice remove_keyboard w
                   in (None, w1\<lparr>sessions := AList.delete cid (sessions w1)\<rparr>))
             else (case list_getitem QUESTIONS (current_question session) of
                     Inl err \<Rightarrow> (Some err, w)
                   | Inr q \<Rightarrow>
                       (case dict_getitem POINTS (m_text message) of
                          Inl err \<Rightarrow> (Some err, w)
                        | Inr pts \<Rightarrow>
                            (let s1 = add_answer (now e) (q_id q) (m_text message) pts session;
                                 w1 = w\<lparr>sessions := AList.update cid s1 (sessions w)\<rparr>
                             in case send_risk_explanation cid q (m_text message) w1 of
                                  (Some err, w2) \<Rightarrow> (Some err, w2)
                                | (None, w2) \<Rightarrow>
                                    (let s2 = s1\<lparr>current_question := current_question s1 + 1\<rparr>;
                                         w3 = w2\<lparr>sessions := AList.update cid s2 (sessions w2)\<rparr>
                                     in if is_completed s2
                                        then (case send_final_report (now e) cid w3 of
                                                (Some err, w4) \<Rightarrow> (Some err, w4)
                                              | (None, w4) \<Rightarrow>
                                                  (None, w4\<lparr>sessions :=
                                                            AList.delete cid (sessions w4)\<rparr>))
                                        else ask_question cid w3)))))"

text \<open>Lines 417 to 463.\<close>

definition ADMIN_IDS :: "int list" where
  "ADMIN_IDS = []"

definition handle_stats :: "env \<Rightarrow> tg_message \<Rightarrow> world \<Rightarrow> py_error option \<times> world" where
  "handle_stats e message w =
     (if u_id (from_user message) \<notin> set ADMIN_IDS
      then (None, send_message (chat_id message) AdminOnly NoMarkup w)
      else (case calculate_average_score (sessions w) of
              Inl err \<Rightarrow> (Some err, w)
            | Inr average \<Rightarrow>
                (case int_truediv (now e - process_start_time w) 1000000 of
                   Inl err \<Rightarrow> (Some err, w)
                 | Inr total_seconds \<Rightarrow>
                     (None, send_message (chat_id message)
                        (BotStats (length (sessions w)) (sessions_today (now e) (sessions w))
                           average (round_double (total_seconds / 3600)))
                        NoMarkup w))))"

definition handle_version :: "tg_message \<Rightarrow> world \<Rightarrow> py_error option \<times> world" where
  "handle_version message w = (None, send_message (chat_id message) VersionInfo NoMarkup w)"

definition handle_unknown :: "env \<Rightarrow> tg_message \<Rightarrow> world \<Rightarrow> py_error option \<times> world" where
  "handle_unknown e message w =
     (None, send_message (chat_id message) (UnknownReply (choice e mod 4)) create_keyboard w)"

section \<open>Dispatch\<close>

text \<open>
  A text message carries the command that the library extracts from it, if any. The
  handlers are tried in the order in which \<open>pybot.py\<close> registers them, and the first
  whose filter accepts the message runs.
\<close>

datatype update =
    Message "string option" tg_message
  | CallbackQuery tg_call

fun dispatch :: "env \<Rightarrow> update \<Rightarrow> world \<Rightarrow> py_error option \<times> world" where
  "dispatch e (Message cmd m) w =
     (if cmd \<in> {Some ''start'', Some ''help''} then handle_start e m w
      else if m_text m \<in> set [Vse, Moi_kontakty, Nikto, Otmena] then handle_answer e m w
      else if cmd = Some ''stats'' then handle_stats e m w
      else if cmd = Some ''version'' then handle_version m w
      else handle_unknown e m w)"
| "dispatch e (CallbackQuery call) w =
     (if call_data call = ''start_check'' then start_check_callback call w else (None, w))"

fun run :: "(env \<times> update) list \<Rightarrow> world \<Rightarrow> py_error option \<times> world" where
  "run [] w = (None, w)"
| "run ((e, u) # rest) w =
     (case dispatch e u w of
        (None, w') \<Rightarrow> run rest w'
      | (Some err, w') \<Rightarrow> (Some err, w'))"

definition initial :: "datetime \<Rightarrow> world" where
  "initial t = \<lparr>sessions = [], outbox = [], process_start_time = t\<rparr>"

section \<open>A transport that may raise\<close>

text \<open>
  \<open>bot.send_message\<close> and \<open>bot.answer_callback_query\<close> raise when Telegram refuses the
  call, and no handler of \<open>pybot.py\<close> catches anything. The transport is a predicate
  \<open>tr\<close> on the calls: a call that it accepts is made and returns, a call that it refuses
  raises. The handlers are those of the sections above, line by line, with \<open>api_call\<close>
  in the place of each call; what follows a call runs only when the call has returned.
  Polling with \<open>none_stop=True\<close> (line 496) goes on with the next update after an
  exception of the API; \<open>run_net\<close> stops at any other exception.
\<close>

definition api_call :: "(effect \<Rightarrow> bool) \<Rightarrow> effect \<Rightarrow> world \<Rightarrow> py_error option \<times> world" where
  "api_call tr eff w =
     (if tr eff then (None, w\<lparr>outbox := outbox w @ [eff]\<rparr>) else (Some ApiException, w))"

definition handle_start_net ::
    "(effect \<Rightarrow> bool) \<Rightarrow> env \<Rightarrow> tg_message \<Rightarrow> world \<Rightarrow> py_error option \<times> world" where
  "handle_start_net tr e message w =
     (let user = from_user message;
          cid = chat_id message;
          session = (UserSession_init (now e) cid)
            \<lparr>username := (case u_username user of None \<Rightarrow> [] | Some n \<Rightarrow> n),
             first_name := (case u_first_name user of None \<Rightarrow> Polzovatel
                            | Some n \<Rightarrow> if n = [] then Polzovatel else n)\<rparr>;
          w1 = w\<lparr>sessions := AList.update cid session (sessions w)\<rparr>
      in api_call tr
           (SendMessage cid (Welcome (u_first_name user)) (InlineKeyboardMarkup ''start_check''))
           w1)"

definition ask_question_net ::
    "(effect \<Rightarrow> bool) \<Rightarrow> int \<Rightarrow> world \<Rightarrow> py_error option \<times> world" where
  "ask_question_net tr cid w =
     (case map_of (sessions w) cid of
        None \<Rightarrow> (None, w)
      | Some session \<Rightarrow>
          if is_completed session then (None, w)
          else (case list_getitem QUESTIONS (current_question session) of
                  Inl err \<Rightarrow> (Some err, w)
                | Inr q \<Rightarrow>
                    api_call tr
                      (SendMessage cid
                         (QuestionPrompt (current_question session + 1)
                            (int (length QUESTIONS)) (q_text q))
                         create_keyboard)
                      w))"

definition start_check_callback_net ::
    "(effect \<Rightarrow> bool) \<Rightarrow> tg_call \<Rightarrow> world \<Rightarrow> py_error option \<times> world" where
  "start_check_callback_net tr call w =
     (let cid = call_chat_id call
      in if map_of (sessions w) cid = None
         then api_call tr (SendMessage cid RestartHint NoMarkup) w
         else (case api_call tr (AnswerCallbackQuery (call_id call)) w of
                 (Some err, w1) \<Rightarrow> (Some err, w1)
               | (None, w1) \<Rightarrow> ask_question_net tr cid w1))"

definition send_risk_explanation_net ::
    "(effect \<Rightarrow> bool) \<Rightarrow> int \<Rightarrow> question \<Rightarrow> pystr \<Rightarrow> world \<Rightarrow> py_error option \<times> world" where
  "send_risk_explanation_net tr cid q a w =
     (case dict_getitem (q_risks q) a of
        Inl err \<Rightarrow> (Some err, w)
      | Inr risk_text \<Rightarrow>
          api_call tr (SendMessage cid (RiskExplanation a risk_text (q_fix q)) remove_keyboard) w)"

definition send_final_report_net ::
    "(effect \<Rightarrow> bool) \<Rightarrow> datetime \<Rightarrow> int \<Rightarrow> world \<Rightarrow> py_error option \<times> world" where
  "send_final_report_net tr t cid w =
     (case map_of (sessions w) cid of
        None \<Rightarrow> (None, w)
      | Some session \<Rightarrow>
          (case levels_get (score session) of
             Inl err \<Rightarrow> (Some err, w)
           | Inr lvl \<Rightarrow>
               (case count_answers (answers session) [(Vse, 0), (Moi_kontakty, 0), (Nikto, 0)] of
                  Inl err \<Rightarrow> (Some err, w)
                | Inr answers_count \<Rightarrow>
                    (case weak_points_loop 0 (answers session) [] of
                       Inl err \<Rightarrow> (Some err, w)
                     | Inr weak_points \<Rightarrow>
                         (let duration = t - start_time session;
                              rep = \<lparr>r_level = lvl,
                                     r_first_name = first_name session,
                                     r_date = t,
                                     r_minutes = duration div 60000000,
                                     r_seconds = (duration mod 60000000) div 1000000,
                                     r_score = score session,
                                     r_answers_count = answers_count,
                                     r_weak_points = weak_points,
                                     r_visual_bar = map (\<lambda>i. int i < score session) [0..<10]\<rparr>
                          in case api_call tr (SendMessage cid (FinalReport rep) remove_keyboard) w of
                               (Some err, w1) \<Rightarrow> (Some err, w1)
                             | (None, w1) \<Rightarrow>
                                 (case calculate_average_score (sessions w1) of
                                    Inl err \<Rightarrow> (Some err, w1)
                                  | Inr average \<Rightarrow>
                                      (case calculate_percentile (sessions w1) (score session) of
                                         Inl err \<Rightarrow> (Some err, w1)
                                       | Inr percentile \<Rightarrow>
                                           api_call tr
                                             (SendMessage cid
                                                (CheckStats (sessions_today t (sessions w1))
                                                   average percentile)
                                                NoMarkup)
                                             w1)))))))"

definition handle_answer_net ::
    "(effect \<Rightarrow> bool) \<Rightarrow> env \<Rightarrow> tg_message \<Rightarrow> world \<Rightarrow> py_error option \<times> world" where
  "handle_answer_net tr e message w =
     (let cid = chat_id message
      in case map_of (sessions w) cid of
           None \<Rightarrow> api_call tr (SendMessage cid StartHint NoMarkup) w
         | Some session \<Rightarrow>
             if m_text message = Otmena
             then (case api_call tr (SendMessage cid CancelNotice remove_keyboard) w of
                     (Some err, w1) \<Rightarrow> (Some err, w1)
                   | (None, w1) \<Rightarrow> (None, w1\<lparr>sessions := AList.delete cid (sessions w1)\<rparr>))
             else (case list_getitem QUESTIONS (current_question session) of
                     Inl err \<Rightarrow> (Some err, w)
                   | Inr q \<Rightarrow>
                       (case dict_getitem POINTS (m_text message) of
                          Inl err \<Rightarrow> (Some err, w)
                        | Inr pts \<Rightarrow>
                            (let s1 = add_answer (now e) (q_id q) (m_text message) pts session;
                                 w1 = w\<lparr>sessions := AList.update cid s1 (sessions w)\<rparr>
                             in case send_risk_explanation_net tr cid q (m_text message) w1 of
                                  (Some err, w2) \<Rightarrow> (Some err, w2)
                                | (None, w2) \<Rightarrow>
                                    (let s2 = s1\<lparr>current_question := current_question s1 + 1\<rparr>;
                                         w3 = w2\<lparr>sessions := AList.update cid s2 (sessions w2)\<rparr>
                                     in if is_completed s2
                                        then (case send_final_report_net tr (now e) cid w3 of
                                                (Some err, w4) \<Rightarrow> (Some err, w4)
                                              | (None, w4) \<Rightarrow>
                                                  (None, w4\<lparr>sessions :=
                                                            AList.delete cid (sessions w4)\<rparr>))
                                        else ask_question_net tr cid w3)))))"

definition handle_stats_net ::
    "(effect \<Rightarrow> bool) \<Rightarrow> env \<Rightarrow> tg_message \<Rightarrow> world \<Rightarrow> py_error option \<times> world" where
  "handle_stats_net tr e message w =
     (if u_id (from_user message) \<notin> set ADMIN_IDS
      then api_call tr (SendMessage (chat_id message) AdminOnly NoMarkup) w
      else (case calculate_average_score (sessions w) of
              Inl err \<Rightarrow> (Some err, w)
            | Inr average \<Rightarrow>
                (case int_truediv (now e - process_start_time w) 1000000 of
                   Inl err \<Rightarrow> (Some err, w)
                 | Inr total_seconds \<Rightarrow>
                     api_call tr
                       (SendMessage (chat_id message)
                          (BotStats (length (sessions w)) (sessions_today (now e) (sessions w))
                             average (round_double (total_seconds / 3600)))
                          NoMarkup)
                       w)))"

definition handle_version_net ::
    "(effect \<Rightarrow> bool) \<Rightarrow> tg_message \<Rightarrow> world \<Rightarrow> py_error option \<times> world" where
  "handle_version_net tr message w =
     api_call tr (SendMessage (chat_id message) VersionInfo NoMarkup) w"

definition handle_unknown_net ::
    "(effect \<Rightarrow> bool) \<Rightarrow> env \<Rightarrow> tg_message \<Rightarrow> world \<Rightarrow> py_error option \<times> world" where
  "handle_unknown_net tr e message w =
     api_call tr (SendMessage (chat_id message) (UnknownReply (choice e mod 4)) create_keyboard) w"

fun dispatch_net ::
    "(effect \<Rightarrow> bool) \<Rightarrow> env \<Rightarrow> update \<Rightarrow> world \<Rightarrow> py_error option \<times> world" where
  "dispatch_net tr e (Message cmd m) w =
     (if cmd \<in> {Some ''start'', Some ''help''} then handle_start_net tr e m w
      else if m_text m \<in> set [Vse, Moi_kontakty, Nikto, Otmena] then handle_answer_net tr e m w
      else if cmd = Some ''stats'' then handle_stats_net tr e m w
      else if cmd = Some ''version'' then handle_version_net tr m w
      else handle_unknown_net tr e m w)"
| "dispatch_net tr e (CallbackQuery call) w =
     (if call_data call = ''start_check'' then start_check_callback_net tr call w else (None, w))"

fun run_net ::
    "((effect \<Rightarrow> bool) \<times> env \<times> update) list \<Rightarrow> world \<Rightarrow> py_error option \<times> world" where
  "run_net [] w = (None, w)"
| "run_net ((tr, e, u) # rest) w =
     (case dispatch_net tr e u w of
        (None, w') \<Rightarrow> run_net rest w'
      | (Some err, w') \<Rightarrow> if err = ApiException then run_net rest w' else (Some err, w'))"

text \<open>
  Three transports: one that accepts every call, one that refuses the risk explanations
  and one that refuses the reports.
\<close>

definition deliver_all :: "effect \<Rightarrow> bool" where
  "deliver_all eff = True"

fun refuse_explanations :: "effect \<Rightarrow> bool" where
  "refuse_explanations (SendMessage cid (RiskExplanation a r f) mk) = False"
| "refuse_explanations eff = True"

fun refuse_reports :: "effect \<Rightarrow> bool" where
  "refuse_reports (SendMessage cid (FinalReport rep) mk) = False"
| "refuse_reports eff = True"

section \<open>Well-formed sessions\<close>

text \<open>
  A canonical answer is one of the three keys of \<open>POINTS\<close>. A session in the store is
  well formed when its index is a position of the catalog and equals the number of its
  answers, its score is the sum of their points, every answer is canonical and has between
  0 and 2 points. The store is well formed when it is a dict (no key twice) of well-formed
  sessions.
\<close>

definition canonical :: "pystr \<Rightarrow> bool" where
  "canonical a = (a \<in> set [Vse, Moi_kontakty, Nikto])"

definition session_ok :: "UserSession \<Rightarrow> bool" where
  "session_ok s =
     (0 \<le> current_question s \<and> current_question s < int (length QUESTIONS) \<and>
      current_question s = int (length (answers s)) \<and>
      score s = sum_list (map points (answers s)) \<and>
      list_all (\<lambda>a. canonical (answer a)) (answers s) \<and>
      list_all (\<lambda>a. 0 \<le> points a \<and> points a \<le> 2) (answers s))"

definition store_ok :: "(int \<times> UserSession) list \<Rightarrow> bool" where
  "store_ok ss = (distinct (map fst ss) \<and> list_all (\<lambda>p. session_ok (snd p)) ss)"

definition scores_bounded :: "(int \<times> UserSession) list \<Rightarrow> bool" where
  "scores_bounded ss = list_all (\<lambda>p. 0 \<le> score (snd p) \<and> score (snd p) \<le> 10) ss"

text \<open>
  The session of a chat once \<open>handle_answer\<close> has recorded the answer of message \<open>m\<close>
  and moved to the next question.
\<close>

definition answered :: "env \<Rightarrow> tg_message \<Rightarrow> UserSession \<Rightarrow> UserSession" where
  "answered e m s =
     (add_answer (now e) (q_id (QUESTIONS ! nat (current_question s))) (m_text m)
        (case map_of POINTS (m_text m) of None \<Rightarrow> 0 | Some p \<Rightarrow> p) s)
       \<lparr>current_question := current_question s + 1\<rparr>"





text \<open>The reports among the calls made, in the order in which they were sent.\<close>

fun reports :: "effect list \<Rightarrow> report list" where
  "reports [] = []"
| "reports (SendMessage cid (FinalReport rep) mk # rest) = rep # reports rest"
| "reports (eff # rest) = reports rest"

section \<open>An example conversation\<close>

text \<open>
  Chat 1 sends \<open>/start\<close> and then answers; every update arrives at time 0. The
  conversation is the concrete input of the examples below.
\<close>

definition example_user :: tg_user where
  "example_user = \<lparr>u_id = 1, u_username = None, u_first_name = None\<rparr>"

definition example_message :: "pystr \<Rightarrow> tg_message" where
  "example_message txt = \<lparr>chat_id = 1, from_user = example_user, m_text = txt\<rparr>"

definition example_env :: env where
  "example_env = \<lparr>now = 0, choice = 0\<rparr>"

definition example_start :: "env \<times> update" where
  "example_start =
     (example_env, Message (Some ''start'') (example_message [47, 115, 116, 97, 114, 116]))"

definition example_answer :: "pystr \<Rightarrow> env \<times> update" where
  "example_answer a = (example_env, Message None (example_message a))"

definition example_record :: "nat \<Rightarrow> pystr \<Rightarrow> int \<Rightarrow> AnswerRecord" where
  "example_record i a p =
     \<lparr>question_id = q_id (QUESTIONS ! i), answer = a, points = p, timestamp = 0\<rparr>"

definition example_session :: "AnswerRecord list \<Rightarrow> UserSession" where
  "example_session as =
     \<lparr>user_id = 1, answers = as, current_question = int (length as),
      score = sum_list (map points as), start_time = 0, username = [],
      first_name = Polzovatel\<rparr>"



text \<open>
  A store of 25 sessions: seven without answers (score 0) and eighteen that have answered
  \<open>Nikto\<close> to the first question (score 2).
\<close>

definition example_store :: "(int \<times> UserSession) list" where
  "example_store =
     map (\<lambda>i. (int i, if i < 7 then example_session []
                         else example_session [example_record 0 Nikto 2]))
       [0..<25]"

section \<open>Facts about the catalog and the store\<close>


lemma answers_distinct:
  "Vse \<noteq> Moi_kontakty" "Vse \<noteq> Nikto" "Moi_kontakty \<noteq> Nikto"
  "Vse \<noteq> Otmena" "Moi_kontakty \<noteq> Otmena" "Nikto \<noteq> Otmena"
  "Moi_kontakty \<noteq> Vse" "Nikto \<noteq> Vse" "Nikto \<noteq> Moi_kontakty"
  by (simp_all add: Vse_def Moi_kontakty_def Nikto_def Otmena_def)

lemma canonical_not_cancel: "canonical a \<Longrightarrow> a \<noteq> Otmena"
  using answers_distinct by (auto simp: canonical_def)

lemma length_QUESTIONS: "length QUESTIONS = 5"
  by (simp add: QUESTIONS_def)

lemma list_getitem_in_range:
  "0 \<le> i \<Longrightarrow> i < int (length xs) \<Longrightarrow> list_getitem xs i = Inr (xs ! nat i)"
  by (simp add: list_getitem_def)

lemma risks_keys: "q \<in> set QUESTIONS \<Longrightarrow> map fst (q_risks q) = [Vse, Moi_kontakty, Nikto]"
  by (auto simp: QUESTIONS_def)

lemma risks_defined:
  assumes "q \<in> set QUESTIONS" "canonical a"
  shows "\<exists>r. map_of (q_risks q) a = Some r"
proof -
  have "a \<in> set (map fst (q_risks q))"
    using assms by (simp add: risks_keys canonical_def)
  then have "map_of (q_risks q) a \<noteq> None"
    by (simp add: map_of_eq_None_iff)
  then show ?thesis by auto
qed

lemma POINTS_canonical:
  "canonical a \<Longrightarrow> \<exists>p. map_of POINTS a = Some p \<and> 0 \<le> p \<and> p \<le> 2"
  using answers_distinct by (auto simp: canonical_def POINTS_def)

lemma set_update_subset: "set (AList.update k v al) \<subseteq> insert (k, v) (set al)"
  by (induction al) auto

lemma store_ok_update: "store_ok ss \<Longrightarrow> session_ok s \<Longrightarrow> store_ok (AList.update k s ss)"
  using set_update_subset [of k s ss]
  by (auto simp: store_ok_def list_all_iff distinct_update)

lemma store_ok_lookup: "store_ok ss \<Longrightarrow> map_of ss k = Some s \<Longrightarrow> session_ok s"
  by (auto simp: store_ok_def list_all_iff dest: map_of_SomeD)

lemma session_ok_init: "session_ok ((UserSession_init t k)\<lparr>username := u, first_name := f\<rparr>)"
  by (simp add: session_ok_def UserSession_init_def length_QUESTIONS)

lemma session_ok_answered:
  assumes "session_ok s" "canonical (m_text m)" "current_question s + 1 < int (length QUESTIONS)"
  shows "session_ok (answered e m s)"
proof -
  obtain p where "map_of POINTS (m_text m) = Some p" "0 \<le> p" "p \<le> 2"
    using POINTS_canonical assms(2) by blast
  then show ?thesis
    using assms by (simp add: session_ok_def answered_def add_answer_def)
qed

subsection \<open>Floats and aggregates\<close>

lemma round_double_0: "round_double 0 = 0"
  by (simp add: round_double_def)

lemma round_double_10: "round_double 10 = 10"
  by code_simp

lemma small_below_threshold: "x \<le> 10 \<Longrightarrow> \<not> overflow_threshold \<le> x"
  by (simp add: overflow_threshold_def)

lemma int_truediv_bounded:
  assumes "0 < b" and "0 \<le> a" and "a \<le> 10 * b"
  shows "int_truediv a b = Inr (round_double (of_int a / of_int b))"
proof -
  have "(of_int a :: rat) \<le> 10 * of_int b"
    using assms(3) by (metis of_int_le_iff of_int_mult of_int_numeral)
  then have up: "(of_int a :: rat) / of_int b \<le> 10"
    using assms(1) by (simp add: pos_divide_le_eq)
  have "0 \<le> (of_int a :: rat) / of_int b"
    using assms(1,2) by simp
  then have "\<bar>(of_int a :: rat) / of_int b\<bar> \<le> 10"
    using up by simp
  then show ?thesis
    using assms(1) by (simp add: int_truediv_def small_below_threshold)
qed

lemma sum_scores_bounded:
  "scores_bounded ss \<Longrightarrow>
     0 \<le> sum_list (map (\<lambda>s. score s) (map snd ss)) \<and>
     sum_list (map (\<lambda>s. score s) (map snd ss)) \<le> 10 * int (length ss)"
  by (induction ss) (auto simp: scores_bounded_def)

lemma calculate_average_score_ok:
  assumes "scores_bounded ss"
  shows "\<exists>avg. calculate_average_score ss = Inr avg"
proof (cases "ss = []")
  case True
  then show ?thesis by (simp add: calculate_average_score_def)
next
  case False
  then have "0 < int (length ss)" by simp
  then show ?thesis
    using sum_scores_bounded [OF assms] False
    by (simp add: calculate_average_score_def Let_def int_truediv_bounded)
qed

lemma calculate_percentile_nonempty:
  assumes "ss \<noteq> []"
  shows "calculate_percentile ss sc =
           Inr (round_double
                  (round_double
                     (of_nat (length (filter (\<lambda>p. score (snd p) < sc) ss)) / of_nat (length ss)) *
                   100))"
proof -
  let ?n = "length (filter (\<lambda>p. score (snd p) < sc) ss)"
  have cnt: "length (filter (\<lambda>s. s < sc) (map (\<lambda>s. score s) (map snd ss))) = ?n"
    by (simp add: filter_map o_def)
  have "?n \<le> length ss" by simp
  then have "int ?n \<le> 10 * int (length ss)" by linarith
  moreover have "0 < int (length ss)" using assms by simp
  ultimately have "int_truediv (int ?n) (int (length ss)) =
      Inr (round_double (of_int (int ?n) / of_int (int (length ss))))"
    by (intro int_truediv_bounded) simp_all
  then have td: "int_truediv (int ?n) (int (length ss)) =
      Inr (round_double (of_nat ?n / of_nat (length ss)))"
    by simp
  show ?thesis
    unfolding calculate_percentile_def Let_def cnt length_map
    using assms by (simp only: td if_False sum.case)
qed

lemma calculate_percentile_ok: "\<exists>pct. calculate_percentile ss sc = Inr pct"
proof (cases "ss = []")
  case True
  then show ?thesis by (simp add: calculate_percentile_def)
next
  case False
  then show ?thesis by (simp add: calculate_percentile_nonempty)
qed

lemma session_ok_score: "session_ok s \<Longrightarrow> 0 \<le> score s \<and> score s \<le> 2 * current_question s"
proof -
  have "0 \<le> sum_list (map points as) \<and> sum_list (map points as) \<le> 2 * int (length as)"
    if "list_all (\<lambda>a. 0 \<le> points a \<and> points a \<le> 2) as" for as :: "AnswerRecord list"
    using that by (induction as) auto
  then show "session_ok s \<Longrightarrow> 0 \<le> score s \<and> score s \<le> 2 * current_question s"
    by (simp add: session_ok_def)
qed

lemma store_ok_scores: "store_ok ss \<Longrightarrow> scores_bounded ss"
proof -
  assume "store_ok ss"
  then have "session_ok (snd p)" if "p \<in> set ss" for p
    using that by (simp add: store_ok_def list_all_iff)
  then have "0 \<le> score (snd p) \<and> score (snd p) \<le> 10" if "p \<in> set ss" for p
    using session_ok_score [of "snd p"] that
    by (fastforce simp: session_ok_def length_QUESTIONS)
  then show ?thesis
    by (simp add: scores_bounded_def list_all_iff)
qed

lemma scores_bounded_update:
  "scores_bounded ss \<Longrightarrow> 0 \<le> score s \<Longrightarrow> score s \<le> 10 \<Longrightarrow>
     scores_bounded (AList.update k s ss)"
  using set_update_subset [of k s ss]
  by (auto simp: scores_bounded_def list_all_iff)

subsection \<open>The handlers on well-formed stores\<close>


lemma set_delete_subset: "set (AList.delete k al) \<subseteq> set al"
  by (auto simp: AList.delete_eq)

lemma store_ok_delete: "store_ok ss \<Longrightarrow> store_ok (AList.delete k ss)"
  using set_delete_subset [of k ss]
  by (auto simp: store_ok_def list_all_iff distinct_delete)

lemma levels_get_total: "\<exists>l. levels_get sc = Inr l"
  by (simp add: levels_get_def dict_getitem_def LEVELS_def)

lemma count_answers_ok:
  "list_all (\<lambda>a. canonical (answer a)) as \<Longrightarrow> map fst cnt = [Vse, Moi_kontakty, Nikto]
     \<Longrightarrow> \<exists>c. count_answers as cnt = Inr c \<and> map fst c = [Vse, Moi_kontakty, Nikto]"
proof (induction as arbitrary: cnt)
  case Nil
  then show ?case by simp
next
  case (Cons a as)
  from Cons.prems have "answer a \<in> set (map fst cnt)"
    by (simp add: canonical_def)
  then obtain n where n: "map_of cnt (answer a) = Some n"
    by (cases "map_of cnt (answer a)") (auto simp: map_of_eq_None_iff)
  have keys: "map fst (AList.update (answer a) (n + 1) cnt) = [Vse, Moi_kontakty, Nikto]"
    using Cons.prems \<open>answer a \<in> set (map fst cnt)\<close> by (simp add: update_keys)
  from Cons.prems have "list_all (\<lambda>a. canonical (answer a)) as" by simp
  from Cons.IH [OF this keys] show ?case by (simp add: n)
qed

lemma weak_points_loop_ok:
  "i + length as \<le> length QUESTIONS \<Longrightarrow>
     weak_points_loop i as acc =
       Inr (acc @ filter (\<lambda>p. points (snd p) < 2) (zip (drop i QUESTIONS) as))"
proof (induction as arbitrary: i acc)
  case Nil
  then show ?case by simp
next
  case (Cons a as)
  then have i: "i < length QUESTIONS" and rest: "Suc i + length as \<le> length QUESTIONS"
    by simp_all
  have get: "list_getitem QUESTIONS (int i) = Inr (QUESTIONS ! i)"
    using i by (simp add: list_getitem_in_range)
  have dr: "drop i QUESTIONS = QUESTIONS ! i # drop (Suc i) QUESTIONS"
    using i by (simp add: Cons_nth_drop_Suc)
  show ?case
    by (simp add: get dr Cons.IH [OF rest])
qed

lemma send_final_report_ok:
  assumes "map_of (sessions w) cid = Some s"
      and "list_all (\<lambda>a. canonical (answer a)) (answers s)"
      and "length (answers s) \<le> length QUESTIONS"
      and "calculate_average_score (sessions w) = Inr avg"
      and "calculate_percentile (sessions w) (score s) = Inr pct"
  shows "\<exists>rep. send_final_report t cid w =
           (None, w\<lparr>outbox := outbox w @
              [SendMessage cid (FinalReport rep) ReplyKeyboardRemove,
               SendMessage cid (CheckStats (sessions_today t (sessions w)) avg pct)
                 NoMarkup]\<rparr>)
         \<and> r_score rep = score s
         \<and> levels_get (score s) = Inr (r_level rep)
         \<and> r_weak_points rep = filter (\<lambda>p. points (snd p) < 2) (zip QUESTIONS (answers s))"
proof -
  obtain l where l: "levels_get (score s) = Inr l"
    using levels_get_total by blast
  obtain c where c: "count_answers (answers s) [(Vse, 0), (Moi_kontakty, 0), (Nikto, 0)] = Inr c"
    using count_answers_ok [OF assms(2), of "[(Vse, 0), (Moi_kontakty, 0), (Nikto, 0)]"] by auto
  have wp: "weak_points_loop 0 (answers s) [] =
              Inr (filter (\<lambda>p. points (snd p) < 2) (zip QUESTIONS (answers s)))"
    using weak_points_loop_ok [of 0 "answers s" "[]"] assms(3) by simp
  let ?rep = "\<lparr>r_level = l, r_first_name = first_name s, r_date = t,
      r_minutes = (t - start_time s) div 60000000,
      r_seconds = (t - start_time s) mod 60000000 div 1000000,
      r_score = score s, r_answers_count = c,
      r_weak_points = filter (\<lambda>p. points (snd p) < 2) (zip QUESTIONS (answers s)),
      r_visual_bar = map (\<lambda>i. int i < score s) [0..<10]\<rparr>"
  show ?thesis
    by (rule exI [of _ ?rep])
      (simp add: send_final_report_def assms(1,4,5) l c wp Let_def send_message_def
        remove_keyboard_def)
qed

lemma handle_answer_no_session:
  "map_of (sessions w) (chat_id m) = None \<Longrightarrow>
     handle_answer e m w =
       (None, w\<lparr>outbox := outbox w @ [SendMessage (chat_id m) StartHint NoMarkup]\<rparr>)"
  by (simp add: handle_answer_def send_message_def)

lemma handle_answer_cancel:
  "map_of (sessions w) (chat_id m) = Some s \<Longrightarrow> m_text m = Otmena \<Longrightarrow>
     handle_answer e m w =
       (None, w\<lparr>sessions := AList.delete (chat_id m) (sessions w),
                outbox := outbox w @ [SendMessage (chat_id m) CancelNotice ReplyKeyboardRemove]\<rparr>)"
  by (simp add: handle_answer_def send_message_def remove_keyboard_def Let_def)


lemma handle_answer_next:
  assumes "map_of (sessions w) (chat_id m) = Some s" and "session_ok s"
      and "canonical (m_text m)"
      and "current_question s + 1 < int (length QUESTIONS)"
  shows "\<exists>r. map_of (q_risks (QUESTIONS ! nat (current_question s))) (m_text m) = Some r \<and>
           handle_answer e m w =
             (None, w\<lparr>sessions := AList.update (chat_id m) (answered e m s) (sessions w),
                      outbox := outbox w @
                        [SendMessage (chat_id m)
                           (RiskExplanation (m_text m) r
                              (q_fix (QUESTIONS ! nat (current_question s))))
                           ReplyKeyboardRemove,
                         SendMessage (chat_id m)
                           (QuestionPrompt (current_question s + 2) (int (length QUESTIONS))
                              (q_text (QUESTIONS ! nat (current_question s + 1))))
                           create_keyboard]\<rparr>)"
proof -
  let ?q = "QUESTIONS ! nat (current_question s)"
  have rng: "0 \<le> current_question s" "current_question s < int (length QUESTIONS)"
    using assms(2) by (simp_all add: session_ok_def)
  have q: "list_getitem QUESTIONS (current_question s) = Inr ?q"
    using rng by (rule list_getitem_in_range)
  have q': "list_getitem QUESTIONS (current_question s + 1) =
              Inr (QUESTIONS ! nat (current_question s + 1))"
    using rng assms(4) by (intro list_getitem_in_range) simp_all
  have "?q \<in> set QUESTIONS"
    using rng by simp
  then obtain r where r: "map_of (q_risks ?q) (m_text m) = Some r"
    using risks_defined assms(3) by blast
  obtain p where p: "map_of POINTS (m_text m) = Some p"
    using POINTS_canonical assms(3) by blast
  have nc: "m_text m \<noteq> Otmena"
    using assms(3) by (rule canonical_not_cancel)
  have "handle_answer e m w =
          (None, w\<lparr>sessions := AList.update (chat_id m) (answered e m s) (sessions w),
                   outbox := outbox w @
                     [SendMessage (chat_id m) (RiskExplanation (m_text m) r (q_fix ?q))
                        ReplyKeyboardRemove,
                      SendMessage (chat_id m)
                        (QuestionPrompt (current_question s + 2) (int (length QUESTIONS))
                           (q_text (QUESTIONS ! nat (current_question s + 1))))
                        create_keyboard]\<rparr>)"
    using assms(4)
    by (simp add: handle_answer_def assms(1) nc q q' r p dict_getitem_def Let_def
        send_risk_explanation_def send_message_def remove_keyboard_def is_completed_def
        ask_question_def update_conv' answered_def add_answer_def)
  with r show ?thesis by blast
qed

lemma handle_answer_final:
  assumes "map_of (sessions w) (chat_id m) = Some s" and "session_ok s"
      and "canonical (m_text m)"
      and "current_question s + 1 = int (length QUESTIONS)"
      and "scores_bounded (sessions w)"
  shows "\<exists>r rep avg pct.
           map_of (q_risks (QUESTIONS ! nat (current_question s))) (m_text m) = Some r \<and>
           calculate_average_score (AList.update (chat_id m) (answered e m s) (sessions w)) =
             Inr avg \<and>
           calculate_percentile (AList.update (chat_id m) (answered e m s) (sessions w))
             (score (answered e m s)) = Inr pct \<and>
           handle_answer e m w =
             (None, w\<lparr>sessions := AList.delete (chat_id m) (sessions w),
                      outbox := outbox w @
                        [SendMessage (chat_id m)
                           (RiskExplanation (m_text m) r
                              (q_fix (QUESTIONS ! nat (current_question s))))
                           ReplyKeyboardRemove,
                         SendMessage (chat_id m) (FinalReport rep) ReplyKeyboardRemove,
                         SendMessage (chat_id m)
                           (CheckStats
                              (sessions_today (now e)
                                 (AList.update (chat_id m) (answered e m s) (sessions w)))
                              avg pct)
                           NoMarkup]\<rparr>)
         \<and> r_score rep = score (answered e m s)
         \<and> levels_get (score (answered e m s)) = Inr (r_level rep)
         \<and> r_weak_points rep =
             filter (\<lambda>p. points (snd p) < 2) (zip QUESTIONS (answers (answered e m s)))"
proof -
  let ?q = "QUESTIONS ! nat (current_question s)"
  let ?cid = "chat_id m"
  let ?s2 = "answered e m s"
  let ?st = "AList.update ?cid ?s2 (sessions w)"
  have rng: "0 \<le> current_question s" "current_question s < int (length QUESTIONS)"
    using assms(2) by (simp_all add: session_ok_def)
  have q: "list_getitem QUESTIONS (current_question s) = Inr ?q"
    using rng by (rule list_getitem_in_range)
  have "?q \<in> set QUESTIONS"
    using rng by simp
  then obtain r where r: "map_of (q_risks ?q) (m_text m) = Some r"
    using risks_defined assms(3) by blast
  obtain p where p: "map_of POINTS (m_text m) = Some p" "0 \<le> p" "p \<le> 2"
    using POINTS_canonical assms(3) by blast
  have nc: "m_text m \<noteq> Otmena"
    using assms(3) by (rule canonical_not_cancel)
  let ?w3 = "w\<lparr>outbox := outbox w @
                  [SendMessage ?cid (RiskExplanation (m_text m) r (q_fix ?q))
                     ReplyKeyboardRemove],
                sessions := ?st\<rparr>"
  have look: "map_of (sessions ?w3) ?cid = Some ?s2"
    by (simp add: update_conv')
  have can: "list_all (\<lambda>a. canonical (answer a)) (answers ?s2)"
    using assms(2,3) by (simp add: session_ok_def answered_def add_answer_def)
  have len: "length (answers ?s2) \<le> length QUESTIONS"
    using assms(2,4) by (simp add: session_ok_def answered_def add_answer_def)
  have sc2: "0 \<le> score ?s2" "score ?s2 \<le> 10"
    using session_ok_score [OF assms(2)] assms(4) p
    by (simp_all add: answered_def add_answer_def length_QUESTIONS)
  have "scores_bounded ?st"
    using assms(5) sc2 by (rule scores_bounded_update)
  then obtain avg where avg: "calculate_average_score ?st = Inr avg"
    using calculate_average_score_ok by blast
  obtain pct where pct: "calculate_percentile ?st (score ?s2) = Inr pct"
    using calculate_percentile_ok by blast
  have avg3: "calculate_average_score (sessions ?w3) = Inr avg"
    and pct3: "calculate_percentile (sessions ?w3) (score ?s2) = Inr pct"
    using avg pct by simp_all
  obtain rep where rep:
    "send_final_report (now e) ?cid ?w3 =
       (None, ?w3\<lparr>outbox := outbox ?w3 @
          [SendMessage ?cid (FinalReport rep) ReplyKeyboardRemove,
           SendMessage ?cid (CheckStats (sessions_today (now e) (sessions ?w3)) avg pct)
             NoMarkup]\<rparr>)"
    "r_score rep = score ?s2" "levels_get (score ?s2) = Inr (r_level rep)"
    "r_weak_points rep = filter (\<lambda>p. points (snd p) < 2) (zip QUESTIONS (answers ?s2))"
    using send_final_report_ok [OF look can len avg3 pct3, of "now e"] by blast
  have step: "handle_answer e m w =
      (case send_final_report (now e) ?cid ?w3 of
         (Some err, w4) \<Rightarrow> (Some err, w4)
       | (None, w4) \<Rightarrow> (None, w4\<lparr>sessions := AList.delete ?cid (sessions w4)\<rparr>))"
    using assms(4)
    by (simp add: handle_answer_def assms(1) nc q r p(1) dict_getitem_def Let_def
        send_risk_explanation_def send_message_def remove_keyboard_def is_completed_def
        answered_def add_answer_def)
  show ?thesis
    apply (rule exI [of _ r])
    apply (rule exI [of _ rep])
    apply (rule exI [of _ avg])
    apply (rule exI [of _ pct])
    apply (simp add: r step rep delete_update_same avg pct)
    done
qed

lemma handle_start_eq:
  "handle_start e m w =
     (None, w\<lparr>sessions := AList.update (chat_id m)
                 ((UserSession_init (now e) (chat_id m))
                    \<lparr>username := (case u_username (from_user m) of None \<Rightarrow> [] | Some n \<Rightarrow> n),
                     first_name := (case u_first_name (from_user m) of None \<Rightarrow> Polzovatel
                                    | Some n \<Rightarrow> if n = [] then Polzovatel else n)\<rparr>)
                 (sessions w),
              outbox := outbox w @
                [SendMessage (chat_id m) (Welcome (u_first_name (from_user m)))
                   (InlineKeyboardMarkup ''start_check'')]\<rparr>)"
  by (simp add: handle_start_def Let_def send_message_def)

lemma handle_start_ok:
  assumes "store_ok (sessions w)"
  shows "\<exists>w'. handle_start e m w = (None, w') \<and> store_ok (sessions w')"
  using assms by (simp add: handle_start_eq store_ok_update session_ok_init)

lemma handle_answer_ok:
  assumes "store_ok (sessions w)" and "m_text m \<in> set [Vse, Moi_kontakty, Nikto, Otmena]"
  shows "\<exists>w'. handle_answer e m w = (None, w') \<and> store_ok (sessions w')"
proof (cases "map_of (sessions w) (chat_id m)")
  case None
  then show ?thesis
    using assms(1) by (simp add: handle_answer_no_session)
next
  case (Some s)
  have ok: "session_ok s"
    using assms(1) Some by (rule store_ok_lookup)
  show ?thesis
  proof (cases "m_text m = Otmena")
    case True
    then show ?thesis
      using assms(1) by (simp add: handle_answer_cancel [OF Some] store_ok_delete)
  next
    case False
    with assms(2) have can: "canonical (m_text m)"
      by (simp add: canonical_def)
    show ?thesis
    proof (cases "current_question s + 1 < int (length QUESTIONS)")
      case True
      from handle_answer_next [OF Some ok can True, of e] show ?thesis
        using assms(1) session_ok_answered [OF ok can True, of e]
        by (auto simp: store_ok_update)
    next
      case False
      with ok have fin: "current_question s + 1 = int (length QUESTIONS)"
        by (simp add: session_ok_def)
      from handle_answer_final [OF Some ok can fin store_ok_scores [OF assms(1)], of e]
      show ?thesis
        using assms(1) by (auto simp: store_ok_delete)
    qed
  qed
qed

lemma ask_question_ok:
  assumes "store_ok (sessions w)"
  shows "\<exists>w'. ask_question cid w = (None, w') \<and> sessions w' = sessions w"
proof (cases "map_of (sessions w) cid")
  case None
  then show ?thesis by (simp add: ask_question_def)
next
  case (Some s)
  have ok: "session_ok s"
    using assms Some by (rule store_ok_lookup)
  then have "list_getitem QUESTIONS (current_question s) = Inr (QUESTIONS ! nat (current_question s))"
    by (intro list_getitem_in_range) (simp_all add: session_ok_def)
  then show ?thesis
    by (simp add: ask_question_def Some send_message_def)
qed

lemma start_check_callback_ok:
  assumes "store_ok (sessions w)"
  shows "\<exists>w'. start_check_callback c w = (None, w') \<and> sessions w' = sessions w"
proof (cases "map_of (sessions w) (call_chat_id c) = None")
  case True
  then show ?thesis by (simp add: start_check_callback_def send_message_def)
next
  case False
  let ?w1 = "w\<lparr>outbox := outbox w @ [AnswerCallbackQuery (call_id c)]\<rparr>"
  have "store_ok (sessions ?w1)" using assms by simp
  from ask_question_ok [OF this, of "call_chat_id c"] show ?thesis
    using False by (auto simp: start_check_callback_def Let_def)
qed

lemma dispatch_ok:
  assumes "store_ok (sessions w)"
  shows "\<exists>w'. dispatch e u w = (None, w') \<and> store_ok (sessions w')"
proof (cases u)
  case (Message cmd m)
  show ?thesis
  proof (cases "cmd \<in> {Some ''start'', Some ''help''}")
    case True
    then show ?thesis
      using handle_start_ok [OF assms, of e m] by (simp add: Message)
  next
    case ns: False
    show ?thesis
    proof (cases "m_text m \<in> set [Vse, Moi_kontakty, Nikto, Otmena]")
      case True
      then show ?thesis
        using handle_answer_ok [OF assms True, of e] ns by (simp add: Message)
    next
      case False
      then show ?thesis
        using ns assms
        by (simp add: Message handle_stats_def handle_version_def handle_unknown_def
            send_message_def ADMIN_IDS_def)
    qed
  qed
next
  case (CallbackQuery c)
  then show ?thesis
    using start_check_callback_ok [OF assms, of c] assms by auto
qed

lemma run_ok:
  "store_ok (sessions w) \<Longrightarrow> \<exists>w'. run evs w = (None, w') \<and> store_ok (sessions w')"
proof (induction evs arbitrary: w)
  case Nil
  then show ?case by simp
next
  case (Cons ev evs)
  obtain e u where ev: "ev = (e, u)" by (cases ev)
  from dispatch_ok [OF Cons.prems, of e u]
  obtain w1 where w1: "dispatch e u w = (None, w1)" "store_ok (sessions w1)" by blast
  from Cons.IH [OF w1(2)] show ?case
    by (simp add: ev w1(1))
qed

lemma store_ok_initial: "store_ok (sessions (initial t))"
  by (simp add: initial_def store_ok_def)

lemma reachable_ok:
  assumes "run evs (initial t) = (r, w)"
  shows "r = None \<and> store_ok (sessions w)"
  using run_ok [OF store_ok_initial, of evs t] assms by auto

section \<open>Evaluating the example conversation\<close>

text \<open>
  Concrete runs are evaluated by rewriting with the definitions of the handlers; the texts
  of the catalog stay folded.
\<close>

lemmas example_defs = example_user_def example_message_def example_env_def example_start_def
  example_answer_def example_record_def example_session_def

lemmas eval_defs = handle_answer_def ask_question_def send_risk_explanation_def
  send_final_report_def send_message_def list_getitem_def dict_getitem_def add_answer_def
  is_completed_def levels_get_def remove_keyboard_def Let_def
  QUESTIONS_def POINTS_def answers_distinct

lemma example_run_1:
  "sessions (snd (run [example_start, example_answer Nikto] (initial 0))) =
     [(1, example_session [example_record 0 Nikto 2])]"
  by (simp add: example_defs handle_start_eq initial_def UserSession_init_def eval_defs)

lemma update_only_entry:
  assumes "distinct (map fst al)" and "(k, v') \<in> set (AList.update k v al)"
  shows "v' = v"
proof -
  have "distinct (map fst (AList.update k v al))"
    using assms(1) by (rule distinct_update)
  then have "map_of (AList.update k v al) k = Some v'"
    using assms(2) by (rule map_of_is_SomeI)
  then show ?thesis by (simp add: update_conv')
qed

lemma handle_answer_no_index_error:
  assumes "store_ok (sessions w)"
  shows "fst (handle_answer e m w) \<noteq> Some IndexError"
proof (cases "map_of (sessions w) (chat_id m)")
  case None
  then show ?thesis by (simp add: handle_answer_no_session)
next
  case (Some s)
  have ok: "session_ok s"
    using assms Some by (rule store_ok_lookup)
  then have q: "list_getitem QUESTIONS (current_question s) =
                  Inr (QUESTIONS ! nat (current_question s))"
    by (intro list_getitem_in_range) (simp_all add: session_ok_def)
  show ?thesis
  proof (cases "m_text m = Otmena")
    case True
    then show ?thesis by (simp add: handle_answer_cancel [OF Some])
  next
    case nc: False
    show ?thesis
    proof (cases "map_of POINTS (m_text m)")
      case None
      then show ?thesis
        by (simp add: handle_answer_def Some nc q dict_getitem_def)
    next
      case (Some p)
      then have "m_text m \<in> fst ` set POINTS"
        by (metis domI dom_map_of_conv_image_fst)
      then have "m_text m \<in> set [Vse, Moi_kontakty, Nikto, Otmena]"
        by (auto simp: POINTS_def)
      from handle_answer_ok [OF assms this, of e] show ?thesis by auto
    qed
  qed
qed

section \<open>The handlers when every call returns\<close>

text \<open>
  With a transport that accepts every call the handlers of the section
  \<open>A transport that may raise\<close> are those of the sections \<open>Handlers\<close> and \<open>Dispatch\<close>.
\<close>

lemma api_call_reliable:
  "api_call (\<lambda>eff. True) (SendMessage cid c mk) w = (None, send_message cid c mk w)"
  by (simp add: api_call_def send_message_def)

lemma handle_start_net_reliable: "handle_start_net (\<lambda>eff. True) e m w = handle_start e m w"
  by (simp add: handle_start_net_def handle_start_def api_call_reliable Let_def)

lemma ask_question_net_reliable: "ask_question_net (\<lambda>eff. True) cid w = ask_question cid w"
  by (simp add: ask_question_net_def ask_question_def api_call_reliable
      split: option.splits sum.splits)

lemma start_check_callback_net_reliable:
  "start_check_callback_net (\<lambda>eff. True) c w = start_check_callback c w"
  by (simp add: start_check_callback_net_def start_check_callback_def api_call_reliable
      ask_question_net_reliable api_call_def send_message_def Let_def)

lemma send_risk_explanation_net_reliable:
  "send_risk_explanation_net (\<lambda>eff. True) cid q a w = send_risk_explanation cid q a w"
  by (simp add: send_risk_explanation_net_def send_risk_explanation_def api_call_reliable
      split: sum.splits)

lemma send_final_report_net_reliable:
  "send_final_report_net (\<lambda>eff. True) t cid w = send_final_report t cid w"
  by (simp add: send_final_report_net_def send_final_report_def api_call_reliable Let_def
      split: option.splits sum.splits)

lemma handle_answer_net_reliable: "handle_answer_net (\<lambda>eff. True) e m w = handle_answer e m w"
  unfolding handle_answer_net_def handle_answer_def api_call_reliable
    send_risk_explanation_net_reliable send_final_report_net_reliable
    ask_question_net_reliable
  by (simp add: Let_def split: option.splits)

lemma dispatch_net_reliable: "dispatch_net (\<lambda>eff. True) e u w = dispatch e u w"
proof (cases u)
  case (Message cmd m)
  then show ?thesis
    by (simp add: handle_start_net_reliable handle_answer_net_reliable handle_stats_net_def
        handle_stats_def handle_version_net_def handle_version_def handle_unknown_net_def
        handle_unknown_def api_call_reliable split: sum.splits)
next
  case (CallbackQuery c)
  then show ?thesis
    by (simp add: start_check_callback_net_reliable)
qed

text \<open>
  As long as every call returns, no handler raises and every state reached from the empty
  store holds well-formed sessions only: the score is the sum of the points, and the index
  is the number of answers and a position of the catalog.
\<close>

lemma invariant_when_delivered:
  assumes "run evs (initial t0) = (r, w)" and "(k, s) \<in> set (sessions w)"
  shows "r = None \<and> score s = sum_list (map points (answers s)) \<and>
         current_question s = int (length (answers s)) \<and>
         0 \<le> current_question s \<and> current_question s < int (length QUESTIONS)"
proof -
  have "r = None" and "store_ok (sessions w)"
    using reachable_ok [OF assms(1)] by simp_all
  moreover from this have "session_ok s"
    using assms(2) by (auto simp: store_ok_def list_all_iff)
  ultimately show ?thesis by (simp add: session_ok_def)
qed

lemma no_index_error_when_delivered:
  assumes "run evs (initial t0) = (r, w)"
  shows "fst (handle_answer e m w) \<noteq> Some IndexError"
  using reachable_ok [OF assms] handle_answer_no_index_error [of w e m] by simp

section \<open>What a refused call leaves behind\<close>

text \<open>
  What a refused call leaves behind. A refused welcome leaves the new session in the
  store; a refused cancellation notice leaves the store as it was; a refused risk
  explanation leaves the answer recorded and the index where it was; a refused report
  leaves the completed session in the store.
\<close>

lemma handle_start_net_store:
  "sessions (snd (handle_start_net tr e m w)) = sessions (snd (handle_start e m w))"
  by (simp add: handle_start_net_def handle_start_def api_call_def send_message_def Let_def)

lemma handle_answer_net_cancel:
  assumes "map_of (sessions w) (chat_id m) = Some s" and "m_text m = Otmena"
  shows "handle_answer_net tr e m w =
           (if tr (SendMessage (chat_id m) CancelNotice ReplyKeyboardRemove)
            then handle_answer e m w else (Some ApiException, w))"
  using assms
  by (simp add: handle_answer_net_def handle_answer_def api_call_def send_message_def
      remove_keyboard_def Let_def)

lemma refused_explanation_keeps_answer:
  assumes "map_of (sessions w) (chat_id m) = Some s" and "session_ok s"
      and "canonical (m_text m)"
      and "map_of (q_risks (QUESTIONS ! nat (current_question s))) (m_text m) = Some rt"
      and "map_of POINTS (m_text m) = Some p"
      and "\<not> tr (SendMessage (chat_id m)
                  (RiskExplanation (m_text m) rt (q_fix (QUESTIONS ! nat (current_question s))))
                  ReplyKeyboardRemove)"
  shows "handle_answer_net tr e m w =
           (Some ApiException,
            w\<lparr>sessions := AList.update (chat_id m)
                  (add_answer (now e) (q_id (QUESTIONS ! nat (current_question s))) (m_text m) p s)
                  (sessions w)\<rparr>)"
proof -
  have rng: "0 \<le> current_question s" "current_question s < int (length QUESTIONS)"
    using assms(2) by (simp_all add: session_ok_def)
  have q: "list_getitem QUESTIONS (current_question s) =
             Inr (QUESTIONS ! nat (current_question s))"
    using rng by (rule list_getitem_in_range)
  have nc: "m_text m \<noteq> Otmena"
    using assms(3) by (rule canonical_not_cancel)
  show ?thesis
    using assms(6)
    by (simp add: handle_answer_net_def assms(1,4,5) nc q dict_getitem_def Let_def
        send_risk_explanation_net_def api_call_def remove_keyboard_def)
qed

lemma refused_report_keeps_session:
  assumes "map_of (sessions w) (chat_id m) = Some s" and "session_ok s"
      and "canonical (m_text m)"
      and "current_question s + 1 = int (length QUESTIONS)"
      and "\<And>a rt f mk. tr (SendMessage (chat_id m) (RiskExplanation a rt f) mk)"
      and "\<And>rep mk. \<not> tr (SendMessage (chat_id m) (FinalReport rep) mk)"
  shows "fst (handle_answer_net tr e m w) = Some ApiException \<and>
         map_of (sessions (snd (handle_answer_net tr e m w))) (chat_id m) =
           Some (answered e m s) \<and>
         current_question (answered e m s) = int (length QUESTIONS)"
proof -
  let ?q = "QUESTIONS ! nat (current_question s)"
  let ?cid = "chat_id m"
  let ?s2 = "answered e m s"
  have rng: "0 \<le> current_question s" "current_question s < int (length QUESTIONS)"
    using assms(2) by (simp_all add: session_ok_def)
  have q: "list_getitem QUESTIONS (current_question s) = Inr ?q"
    using rng by (rule list_getitem_in_range)
  have "?q \<in> set QUESTIONS"
    using rng by simp
  then obtain rt where rt: "map_of (q_risks ?q) (m_text m) = Some rt"
    using risks_defined assms(3) by blast
  obtain p where p: "map_of POINTS (m_text m) = Some p"
    using POINTS_canonical assms(3) by blast
  have nc: "m_text m \<noteq> Otmena"
    using assms(3) by (rule canonical_not_cancel)
  let ?w3 = "w\<lparr>outbox := outbox w @
                  [SendMessage ?cid (RiskExplanation (m_text m) rt (q_fix ?q))
                     ReplyKeyboardRemove],
                sessions := AList.update ?cid ?s2 (sessions w)\<rparr>"
  have can: "list_all (\<lambda>a. canonical (answer a)) (answers ?s2)"
    using assms(2,3) by (simp add: session_ok_def answered_def add_answer_def)
  have len: "length (answers ?s2) \<le> length QUESTIONS"
    using assms(2,4) by (simp add: session_ok_def answered_def add_answer_def)
  obtain l where l: "levels_get (score ?s2) = Inr l"
    using levels_get_total by blast
  obtain c where c: "count_answers (answers ?s2) [(Vse, 0), (Moi_kontakty, 0), (Nikto, 0)] = Inr c"
    using count_answers_ok [OF can, of "[(Vse, 0), (Moi_kontakty, 0), (Nikto, 0)]"] by auto
  have wp: "weak_points_loop 0 (answers ?s2) [] =
              Inr (filter (\<lambda>p. points (snd p) < 2) (zip QUESTIONS (answers ?s2)))"
    using weak_points_loop_ok [of 0 "answers ?s2" "[]"] len by simp
  have rep: "send_final_report_net tr (now e) ?cid ?w3 = (Some ApiException, ?w3)"
    by (simp add: send_final_report_net_def update_conv' l c wp Let_def api_call_def assms(6))
  have step: "handle_answer_net tr e m w =
      (case send_final_report_net tr (now e) ?cid ?w3 of
         (Some err, w4) \<Rightarrow> (Some err, w4)
       | (None, w4) \<Rightarrow> (None, w4\<lparr>sessions := AList.delete ?cid (sessions w4)\<rparr>))"
    using assms(4)
    by (simp add: handle_answer_net_def assms(1,5) nc q rt p dict_getitem_def Let_def
        send_risk_explanation_net_def api_call_def remove_keyboard_def is_completed_def
        answered_def add_answer_def)
  have "current_question ?s2 = int (length QUESTIONS)"
    using assms(4) by (simp add: answered_def add_answer_def)
  then show ?thesis
    by (simp add: step rep update_conv')
qed

lemma completed_session_raises_index_error:
  assumes "map_of (sessions w) (chat_id m) = Some s"
      and "current_question s = int (length QUESTIONS)" and "m_text m \<noteq> Otmena"
  shows "handle_answer_net tr e m w = (Some IndexError, w)"
  using assms by (simp add: handle_answer_net_def list_getitem_def Let_def)

section \<open>Session invariants when a call raises (C2, C10)\<close>

lemmas net_defs = handle_start_net_def handle_answer_net_def ask_question_net_def
  send_risk_explanation_net_def send_final_report_net_def api_call_def deliver_all_def
  list_getitem_def dict_getitem_def add_answer_def is_completed_def levels_get_def
  remove_keyboard_def Let_def QUESTIONS_def POINTS_def LEVELS_def answers_distinct
  initial_def UserSession_init_def

text \<open>
  C2. The code keeps the index and the answers in step only when
  \<open>send_risk_explanation\<close> returns: \<open>add_answer\<close> (line 286) has appended the answer
  when the call of line 312 raises, and the increment of line 290 is then skipped (lemma
  \<open>refused_explanation_keeps_answer\<close>). The cancel branch of the same handler sends
  first and changes the store afterward (lines 277 to 279). In the example chat 1 starts,
  answers \<open>Nikto\<close> while the transport refuses the explanation, and answers \<open>Nikto\<close>
  again with a transport that delivers. The last handler returns normally and leaves the
  session with index 1, two recorded answers and score 4.
\<close>

theorem C2_index_behind_answers_after_refused_send:
  "fst (handle_answer_net deliver_all example_env (example_message Nikto)
          (snd (run_net [(deliver_all, example_start),
                         (refuse_explanations, example_answer Nikto)] (initial 0)))) = None \<and>
   map (\<lambda>p. (fst p, current_question (snd p), length (answers (snd p)), score (snd p)))
     (sessions (snd (run_net [(deliver_all, example_start),
                              (refuse_explanations, example_answer Nikto),
                              (deliver_all, example_answer Nikto)] (initial 0)))) =
     [(1, 1, 2, 4)]"
  by (simp add: example_defs net_defs)

text \<open>
  C10. A session stays in the store at index 5, the number of questions, when the call
  that sends the report (line 390) raises: \<open>sessions.pop\<close> of line 294 is skipped
  (lemma \<open>refused_report_keeps_session\<close>). The next answer of the chat then reads
  \<open>Config.QUESTIONS[5]\<close> at line 282, which is out of range (lemma
  \<open>completed_session_raises_index_error\<close>); \<open>ask_question\<close> guards the same lookup
  with \<open>is_completed\<close> (line 252). In the example chat 1 starts and answers \<open>Nikto\<close>
  five times; the transport refuses the report of the fifth answer. A sixth answer raises
  \<open>IndexError\<close>.
\<close>

theorem C10_index_error_after_refused_report:
  "map (\<lambda>p. (fst p, current_question (snd p)))
     (sessions (snd (run_net [(deliver_all, example_start),
                              (deliver_all, example_answer Nikto),
                              (deliver_all, example_answer Nikto),
                              (deliver_all, example_answer Nikto),
                              (deliver_all, example_answer Nikto),
                              (refuse_reports, example_answer Nikto)] (initial 0)))) =
     [(1, 5)] \<and>
   int (length QUESTIONS) = 5 \<and>
   fst (handle_answer_net deliver_all example_env (example_message Nikto)
          (snd (run_net [(deliver_all, example_start),
                         (deliver_all, example_answer Nikto),
                         (deliver_all, example_answer Nikto),
                         (deliver_all, example_answer Nikto),
                         (deliver_all, example_answer Nikto),
                         (refuse_reports, example_answer Nikto)] (initial 0)))) =
     Some IndexError"
  by (simp add: example_defs net_defs)

section \<open>Start and cancel (C3, C4)\<close>

text \<open>
  C3. When the store already holds a session for the chat of a start command, the handler
  returns normally and the store then maps the chat to a session at question index 0 with
  no answers and score 0; as the store is a dict, this is the only entry of the chat, so
  no answer of the earlier session is left.
\<close>

theorem C3_start_replaces_session:
  assumes "map_of (sessions w) (chat_id m) = Some old"
      and "distinct (map fst (sessions w))"
  shows "fst (handle_start e m w) = None \<and>
         (\<exists>s. map_of (sessions (snd (handle_start e m w))) (chat_id m) = Some s \<and>
              current_question s = 0 \<and> answers s = [] \<and> score s = 0 \<and>
              (\<forall>s'. (chat_id m, s') \<in> set (sessions (snd (handle_start e m w))) \<longrightarrow> s' = s))"
proof -
  let ?s = "(UserSession_init (now e) (chat_id m))
              \<lparr>username := (case u_username (from_user m) of None \<Rightarrow> [] | Some n \<Rightarrow> n),
               first_name := (case u_first_name (from_user m) of None \<Rightarrow> Polzovatel
                              | Some n \<Rightarrow> if n = [] then Polzovatel else n)\<rparr>"
  have st: "sessions (snd (handle_start e m w)) = AList.update (chat_id m) ?s (sessions w)"
    by (simp add: handle_start_eq)
  have "map_of (sessions (snd (handle_start e m w))) (chat_id m) = Some ?s"
    by (simp add: st update_conv')
  moreover have "current_question ?s = 0 \<and> answers ?s = [] \<and> score ?s = 0"
    by (simp add: UserSession_init_def)
  moreover have "s' = ?s" if "(chat_id m, s') \<in> set (sessions (snd (handle_start e m w)))" for s'
    using update_only_entry [OF assms(2)] that unfolding st by blast
  moreover have "fst (handle_start e m w) = None"
    by (simp add: handle_start_eq)
  ultimately show ?thesis by blast
qed

theorem C3_start_replaces_session_witness:
  "map_of (sessions (snd (run [example_start, example_answer Nikto] (initial 0)))) 1 =
     Some (example_session [example_record 0 Nikto 2]) \<and>
   answers (example_session [example_record 0 Nikto 2]) \<noteq> [] \<and>
   distinct (map fst (sessions (snd (run [example_start, example_answer Nikto] (initial 0))))) \<and>
   map_of (sessions (snd (handle_start example_env (example_message [47, 115, 116, 97, 114, 116])
      (snd (run [example_start, example_answer Nikto] (initial 0)))))) 1 =
     Some (example_session [])"
proof -
  let ?w = "snd (run [example_start, example_answer Nikto] (initial 0))"
  let ?m = "example_message [47, 115, 116, 97, 114, 116]"
  have cid: "chat_id ?m = 1"
    by (simp add: example_message_def)
  have look: "map_of (sessions ?w) (chat_id ?m) = Some (example_session [example_record 0 Nikto 2])"
    by (simp add: example_run_1 cid)
  have dist: "distinct (map fst (sessions ?w))"
    by (simp add: example_run_1)
  have new: "map_of (sessions (snd (handle_start example_env ?m ?w))) 1 = Some (example_session [])"
    by (simp add: handle_start_eq example_run_1 example_message_def example_env_def
        example_user_def example_session_def UserSession_init_def)
  from C3_start_replaces_session [OF look dist, of example_env] look dist new
  show ?thesis
    by (simp add: cid example_session_def)
qed

text \<open>
  C4. For an existing session, whatever its question index, the answer handler given the
  cancel button's text returns normally, removes the chat's entry from the store and
  leaves every other entry as it was, and sends one message, the cancellation notice; no
  report is sent. The session is not written to before it is removed: the new store is
  the old one without the chat's entry.
\<close>

theorem C4_cancel_deletes_session:
  assumes "map_of (sessions w) (chat_id m) = Some s" and "m_text m = Otmena"
  shows "handle_answer e m w =
           (None, w\<lparr>sessions := AList.delete (chat_id m) (sessions w),
                    outbox := outbox w @
                      [SendMessage (chat_id m) CancelNotice ReplyKeyboardRemove]\<rparr>) \<and>
         map_of (sessions (snd (handle_answer e m w))) (chat_id m) = None \<and>
         reports (outbox (snd (handle_answer e m w))) = reports (outbox w)"
proof -
  have eq: "handle_answer e m w =
           (None, w\<lparr>sessions := AList.delete (chat_id m) (sessions w),
                    outbox := outbox w @
                      [SendMessage (chat_id m) CancelNotice ReplyKeyboardRemove]\<rparr>)"
    using assms by (rule handle_answer_cancel)
  have rep: "reports (xs @ [SendMessage c CancelNotice k]) = reports xs" for xs c k
    by (induction xs rule: reports.induct) simp_all
  show ?thesis
    by (simp add: eq delete_conv' rep)
qed

theorem C4_cancel_deletes_session_witness:
  "map_of (sessions (snd (run [example_start, example_answer Nikto] (initial 0)))) 1 =
     Some (example_session [example_record 0 Nikto 2]) \<and>
   sessions (snd (handle_answer example_env (example_message Otmena)
      (snd (run [example_start, example_answer Nikto] (initial 0))))) = [] \<and>
   last (outbox (snd (handle_answer example_env (example_message Otmena)
      (snd (run [example_start, example_answer Nikto] (initial 0)))))) =
     SendMessage 1 CancelNotice ReplyKeyboardRemove"
proof -
  let ?w = "snd (run [example_start, example_answer Nikto] (initial 0))"
  let ?m = "example_message Otmena"
  have cid: "chat_id ?m = 1" and cancel: "m_text ?m = Otmena"
    by (simp_all add: example_message_def)
  have look: "map_of (sessions ?w) (chat_id ?m) = Some (example_session [example_record 0 Nikto 2])"
    by (simp add: example_run_1 cid)
  from C4_cancel_deletes_session [OF look cancel, of example_env] look
  show ?thesis
    by (simp add: cid example_run_1)
qed

section \<open>Levels and aggregates (C7, C8)\<close>

text \<open>
  C7. \<open>Config.LEVELS.get(score, Config.LEVELS[0])\<close>, the lookup of the report, returns
  the entry of score 0 for every integer that is not a key of \<open>LEVELS\<close>; every negative
  integer and every integer above 10 is such an integer.
\<close>

theorem C7_level_fallback:
  "(sc \<notin> set (map fst LEVELS) \<longrightarrow>
      levels_get sc =
        Inr \<lparr>l_name = level_0_name, l_color = level_0_color, l_desc = level_0_desc\<rparr>) \<and>
   (sc < 0 \<or> 10 < sc \<longrightarrow> sc \<notin> set (map fst LEVELS)) \<and>
   map_of LEVELS 0 =
     Some \<lparr>l_name = level_0_name, l_color = level_0_color, l_desc = level_0_desc\<rparr>"
proof -
  have zero: "map_of LEVELS 0 =
      Some \<lparr>l_name = level_0_name, l_color = level_0_color, l_desc = level_0_desc\<rparr>"
    by (simp add: LEVELS_def)
  have "map_of LEVELS sc = None" if "sc \<notin> set (map fst LEVELS)"
    using that by (simp add: map_of_eq_None_iff)
  then have "levels_get sc =
      Inr \<lparr>l_name = level_0_name, l_color = level_0_color, l_desc = level_0_desc\<rparr>"
    if "sc \<notin> set (map fst LEVELS)"
    using that by (simp add: levels_get_def dict_getitem_def zero)
  moreover have "sc \<notin> set (map fst LEVELS)" if "sc < 0 \<or> 10 < sc"
    using that by (auto simp: LEVELS_def)
  ultimately show ?thesis
    using zero by blast
qed

theorem C7_level_fallback_witness:
  "(11::int) \<notin> set (map fst LEVELS) \<and> (10::int) < 11 \<and>
   levels_get 11 =
     Inr \<lparr>l_name = level_0_name, l_color = level_0_color, l_desc = level_0_desc\<rparr> \<and>
   levels_get 11 = levels_get 0"
proof -
  have a: "(11::int) \<notin> set (map fst LEVELS)"
    by (simp add: LEVELS_def)
  have z: "levels_get 0 =
     Inr \<lparr>l_name = level_0_name, l_color = level_0_color, l_desc = level_0_desc\<rparr>"
    by (simp add: levels_get_def dict_getitem_def LEVELS_def)
  from C7_level_fallback [of 11] a z show ?thesis by simp
qed

lemma example_store_length: "length example_store = 25"
  by (simp add: example_store_def)

lemma example_store_below: "length (filter (\<lambda>p. score (snd p) < 1) example_store) = 7"
proof -
  have "(\<lambda>p. score (snd p) < 1) \<circ>
          (\<lambda>i. (int i, if i < 7 then example_session []
                        else example_session [example_record 0 Nikto 2])) = (\<lambda>i. i < 7)"
    by (auto simp: fun_eq_iff example_session_def example_record_def)
  then have "length (filter (\<lambda>p. score (snd p) < 1) example_store) =
             length (filter (\<lambda>i. i < 7) [0..<25])"
    by (simp add: example_store_def filter_map)
  also have "\<dots> = 7"
    by code_simp
  finally show ?thesis .
qed

lemma round_double_7_25: "round_double (round_double (7 / 25) * 100) = 28 + 1 / 2 ^ 48"
  by code_simp

text \<open>
  C8, as stated, fails for the store that is not empty: the percentile is a float. In the
  example store 7 of 25 sessions have a score below 1. The exact value of 7 / 25 times 100
  is 28, but \<open>calculate_percentile\<close> returns 28.000000000000004, that is
  \<open>28 + 2 ^ - 48\<close>: the quotient 7 / 25 is rounded to a double before it is multiplied
  by 100.
\<close>

theorem C8_percentile_exact_counterexample:
  "example_store \<noteq> [] \<and>
   (of_nat (length (filter (\<lambda>p. score (snd p) < 1) example_store)) /
      of_nat (length example_store) * 100 :: rat) = 28 \<and>
   calculate_percentile example_store 1 = Inr (28 + 1 / 2 ^ 48) \<and>
   calculate_percentile example_store 1 \<noteq> Inr 28"
proof -
  have ne: "example_store \<noteq> []"
    using example_store_length by auto
  have exact: "(of_nat (length (filter (\<lambda>p. score (snd p) < 1) example_store)) /
      of_nat (length example_store) * 100 :: rat) = 28"
    by (simp add: example_store_below example_store_length)
  have val: "calculate_percentile example_store 1 = Inr (28 + 1 / 2 ^ 48)"
    by (simp add: calculate_percentile_nonempty [OF ne] example_store_below
        example_store_length round_double_7_25)
  have "calculate_percentile example_store 1 \<noteq> Inr 28"
    unfolding val by simp
  with ne exact val show ?thesis by blast
qed

text \<open>
  C8, amended. On an empty store \<open>calculate_average_score\<close> returns 0.0 and
  \<open>calculate_percentile\<close> returns 100.0 for every score. On a store that is not empty
  \<open>calculate_percentile\<close> returns normally, and its result is the float obtained from the
  number of sessions with a score strictly below the given one by dividing it by the
  number of sessions, rounded to the nearest double, and multiplying the quotient by 100,
  rounded again.
\<close>

theorem C8_aggregates:
  "calculate_average_score [] = Inr 0 \<and>
   calculate_percentile [] sc = Inr 100 \<and>
   (ss \<noteq> [] \<longrightarrow>
      calculate_percentile ss sc =
        Inr (round_double
               (round_double
                  (of_nat (length (filter (\<lambda>p. score (snd p) < sc) ss)) / of_nat (length ss)) *
                100)))"
proof -
  have "calculate_average_score [] = Inr 0" "calculate_percentile [] sc = Inr 100"
    by (simp_all add: calculate_average_score_def calculate_percentile_def)
  then show ?thesis
    using calculate_percentile_nonempty [of ss sc] by blast
qed

theorem C8_aggregates_witness:
  "example_store \<noteq> [] \<and>
   length (filter (\<lambda>p. score (snd p) < 1) example_store) = 7 \<and>
   length example_store = 25 \<and>
   round_double (round_double (7 / 25) * 100) = 28 + 1 / 2 ^ 48 \<and>
   calculate_percentile example_store 1 = Inr (28 + 1 / 2 ^ 48) \<and>
   calculate_percentile [] 1 = Inr 100 \<and> calculate_average_score [] = Inr 0"
proof -
  have ne: "example_store \<noteq> []"
    using example_store_length by auto
  have "calculate_percentile example_store 1 =
          Inr (round_double
                 (round_double
                    (of_nat (length (filter (\<lambda>p. score (snd p) < 1) example_store)) /
                     of_nat (length example_store)) * 100))"
    using C8_aggregates [of 1 example_store] ne by blast
  then have p: "calculate_percentile example_store 1 = Inr (28 + 1 / 2 ^ 48)"
    by (simp add: example_store_below example_store_length round_double_7_25)
  have e: "calculate_percentile [] 1 = Inr 100" "calculate_average_score [] = Inr 0"
    using C8_aggregates [of 1 "[]"] by simp_all
  show ?thesis
    by (intro conjI ne example_store_below example_store_length round_double_7_25 p e)
qed

section \<open>The example conversation to its end\<close>

lemma example_run_0:
  "run [example_start] (initial 0) =
     (None, \<lparr>sessions = [(1, example_session [])],
             outbox = [SendMessage 1 (Welcome None) (InlineKeyboardMarkup ''start_check'')],
             process_start_time = 0\<rparr>)"
  by (simp add: example_defs handle_start_eq initial_def UserSession_init_def)

lemma example_run_4:
  "sessions (snd (run (example_start # map example_answer [Nikto, Nikto, Nikto, Nikto]) (initial 0))) =
     [(1, example_session [example_record 0 Nikto 2, example_record 1 Nikto 2,
                           example_record 2 Nikto 2, example_record 3 Nikto 2])]"
  by (simp add: example_defs handle_start_eq initial_def UserSession_init_def eval_defs)

lemma example_run_5:
  "last (outbox (snd (run (example_start # map example_answer [Nikto, Nikto, Nikto, Nikto, Nikto])
     (initial 0)))) = SendMessage 1 (CheckStats 1 10 0) NoMarkup"
  by (simp add: example_defs handle_start_eq initial_def UserSession_init_def eval_defs
      sessions_today_def calculate_average_score_def calculate_percentile_def date_def LEVELS_def
      int_truediv_def small_below_threshold round_double_10 round_double_0)

section \<open>Answering to the end\<close>

lemma reports_append: "reports (xs @ ys) = reports xs @ reports ys"
  by (induction xs rule: reports.induct) simp_all

lemma dispatch_answer:
  "canonical (m_text m) \<Longrightarrow> dispatch e (Message None m) w = handle_answer e m w"
  by (auto simp: canonical_def)

lemma answered_length: "length (answers (answered e m s)) = Suc (length (answers s))"
  by (simp add: answered_def add_answer_def)

lemma answer_all:
  assumes "store_ok (sessions w)" and "map_of (sessions w) cid = Some s"
      and "length ms + length (answers s) = length QUESTIONS"
      and "list_all (\<lambda>em. chat_id (snd em) = cid \<and> canonical (m_text (snd em))) ms"
  shows "\<exists>w' out rep.
           run (map (\<lambda>em. (fst em, Message None (snd em))) ms) w = (None, w') \<and>
           outbox w' = outbox w @ out \<and> reports out = [rep] \<and>
           sessions w' = AList.delete cid (sessions w) \<and>
           r_score rep = score (foldl (\<lambda>s em. answered (fst em) (snd em) s) s ms) \<and>
           r_weak_points rep =
             filter (\<lambda>p. points (snd p) < 2)
               (zip QUESTIONS (answers (foldl (\<lambda>s em. answered (fst em) (snd em) s) s ms)))"
  using assms
proof (induction ms arbitrary: w s)
  case Nil
  have "session_ok s"
    using Nil.prems(1,2) by (rule store_ok_lookup)
  then have "length (answers s) < length QUESTIONS"
    by (simp add: session_ok_def)
  with Nil.prems(3) show ?case by simp
next
  case (Cons em ms)
  obtain e m where em: "em = (e, m)" by (cases em)
  have cid: "chat_id m = cid" and can: "canonical (m_text m)"
    using Cons.prems(4) by (simp_all add: em)
  have look: "map_of (sessions w) (chat_id m) = Some s"
    using Cons.prems(2) by (simp add: cid)
  have ok: "session_ok s"
    using Cons.prems(1,2) by (rule store_ok_lookup)
  then have cq: "current_question s = int (length (answers s))"
    by (simp add: session_ok_def)
  show ?case
  proof (cases ms)
    case Nil
    then have fin: "current_question s + 1 = int (length QUESTIONS)"
      using Cons.prems(3) cq by simp
    from handle_answer_final [OF look ok can fin store_ok_scores [OF Cons.prems(1)], of e]
    obtain r rep avg pct where
      h: "handle_answer e m w =
            (None, w\<lparr>sessions := AList.delete (chat_id m) (sessions w),
                     outbox := outbox w @
                       [SendMessage (chat_id m)
                          (RiskExplanation (m_text m) r
                             (q_fix (QUESTIONS ! nat (current_question s))))
                          ReplyKeyboardRemove,
                        SendMessage (chat_id m) (FinalReport rep) ReplyKeyboardRemove,
                        SendMessage (chat_id m)
                          (CheckStats
                             (sessions_today (now e)
                                (AList.update (chat_id m) (answered e m s) (sessions w)))
                             avg pct)
                          NoMarkup]\<rparr>)"
      and sc: "r_score rep = score (answered e m s)"
      and wp: "r_weak_points rep =
                 filter (\<lambda>p. points (snd p) < 2) (zip QUESTIONS (answers (answered e m s)))"
      by blast
    show ?thesis
      by (simp add: Nil em dispatch_answer [OF can] h sc wp cid del: dispatch.simps)
  next
    case (Cons em' ms')
    then have nxt: "current_question s + 1 < int (length QUESTIONS)"
      using Cons.prems(3) cq by simp
    let ?w1 = "w\<lparr>sessions := AList.update (chat_id m) (answered e m s) (sessions w),
                  outbox := outbox w @
                    [SendMessage (chat_id m)
                       (RiskExplanation (m_text m)
                          (the (map_of (q_risks (QUESTIONS ! nat (current_question s))) (m_text m)))
                          (q_fix (QUESTIONS ! nat (current_question s))))
                       ReplyKeyboardRemove,
                     SendMessage (chat_id m)
                       (QuestionPrompt (current_question s + 2) (int (length QUESTIONS))
                          (q_text (QUESTIONS ! nat (current_question s + 1))))
                       create_keyboard]\<rparr>"
    have h: "handle_answer e m w = (None, ?w1)"
      using handle_answer_next [OF look ok can nxt, of e] by auto
    have ok1: "store_ok (sessions ?w1)"
      using Cons.prems(1) session_ok_answered [OF ok can nxt, of e] by (simp add: store_ok_update)
    have look1: "map_of (sessions ?w1) cid = Some (answered e m s)"
      by (simp add: update_conv' cid)
    have len1: "length ms + length (answers (answered e m s)) = length QUESTIONS"
      using Cons.prems(3) by (simp add: answered_length)
    have all1: "list_all (\<lambda>em. chat_id (snd em) = cid \<and> canonical (m_text (snd em))) ms"
      using Cons.prems(4) by simp
    from Cons.IH [OF ok1 look1 len1 all1]
    obtain w' out rep where
      r: "run (map (\<lambda>em. (fst em, Message None (snd em))) ms) ?w1 = (None, w')"
      and o: "outbox w' = outbox ?w1 @ out" and rp: "reports out = [rep]"
      and st: "sessions w' = AList.delete cid (sessions ?w1)"
      and sc: "r_score rep = score (foldl (\<lambda>s em. answered (fst em) (snd em) s) (answered e m s) ms)"
      and wp: "r_weak_points rep =
                 filter (\<lambda>p. points (snd p) < 2)
                   (zip QUESTIONS
                      (answers (foldl (\<lambda>s em. answered (fst em) (snd em) s) (answered e m s) ms)))"
      by blast
    have "run (map (\<lambda>em. (fst em, Message None (snd em))) (em # ms)) w = (None, w')"
      by (simp add: em dispatch_answer [OF can] h r del: dispatch.simps)
    moreover have "outbox w' = outbox w @
        ([SendMessage (chat_id m)
            (RiskExplanation (m_text m)
               (the (map_of (q_risks (QUESTIONS ! nat (current_question s))) (m_text m)))
               (q_fix (QUESTIONS ! nat (current_question s))))
            ReplyKeyboardRemove,
          SendMessage (chat_id m)
            (QuestionPrompt (current_question s + 2) (int (length QUESTIONS))
               (q_text (QUESTIONS ! nat (current_question s + 1))))
            create_keyboard] @ out)"
      by (simp add: o)
    moreover have "reports
        ([SendMessage (chat_id m)
            (RiskExplanation (m_text m)
               (the (map_of (q_risks (QUESTIONS ! nat (current_question s))) (m_text m)))
               (q_fix (QUESTIONS ! nat (current_question s))))
            ReplyKeyboardRemove,
          SendMessage (chat_id m)
            (QuestionPrompt (current_question s + 2) (int (length QUESTIONS))
               (q_text (QUESTIONS ! nat (current_question s + 1))))
            create_keyboard] @ out) = [rep]"
      by (simp add: rp)
    moreover have "sessions w' = AList.delete cid (sessions w)"
      by (simp add: st cid delete_update_same)
    ultimately show ?thesis
      using sc wp by (simp add: em)
  qed
qed


section \<open>Answers among the updates of other chats\<close>










section \<open>Completion (C5, C6, C9)\<close>






text \<open>
  C9. In a state reached from the empty store while every call of the API returns, let a
  chat have a session without answers and answer the five
  questions with \<open>Vse\<close>, \<open>Moi_kontakty\<close>, \<open>Nikto\<close>, \<open>Vse\<close>, \<open>Moi_kontakty\<close> in this
  order. Then one report is sent, its score is 4, and its weak points are the four answers
  other than \<open>Nikto\<close> (points 0, 1, 0, 1), each paired with the question at its position
  (first, second, fourth and fifth), in the order of the questions.
\<close>

theorem C9_mixed_answers_report:
  assumes "run evs (initial t0) = (r, w)"
      and "map_of (sessions w) cid = Some s" and "answers s = []"
  shows "\<exists>w' out rep.
           run [(e1, Message None \<lparr>chat_id = cid, from_user = u1, m_text = Vse\<rparr>),
                (e2, Message None \<lparr>chat_id = cid, from_user = u2, m_text = Moi_kontakty\<rparr>),
                (e3, Message None \<lparr>chat_id = cid, from_user = u3, m_text = Nikto\<rparr>),
                (e4, Message None \<lparr>chat_id = cid, from_user = u4, m_text = Vse\<rparr>),
                (e5, Message None \<lparr>chat_id = cid, from_user = u5, m_text = Moi_kontakty\<rparr>)] w =
             (None, w') \<and>
           outbox w' = outbox w @ out \<and> reports out = [rep] \<and> r_score rep = 4 \<and>
           r_weak_points rep =
             [(QUESTIONS ! 0, \<lparr>question_id = ''phone'', answer = Vse, points = 0,
                                timestamp = now e1\<rparr>),
              (QUESTIONS ! 1, \<lparr>question_id = ''last_seen'', answer = Moi_kontakty, points = 1,
                                timestamp = now e2\<rparr>),
              (QUESTIONS ! 3, \<lparr>question_id = ''groups'', answer = Vse, points = 0,
                                timestamp = now e4\<rparr>),
              (QUESTIONS ! 4, \<lparr>question_id = ''forwarding'', answer = Moi_kontakty, points = 1,
                                timestamp = now e5\<rparr>)]"
proof -
  let ?ms = "[(e1, \<lparr>chat_id = cid, from_user = u1, m_text = Vse\<rparr>),
              (e2, \<lparr>chat_id = cid, from_user = u2, m_text = Moi_kontakty\<rparr>),
              (e3, \<lparr>chat_id = cid, from_user = u3, m_text = Nikto\<rparr>),
              (e4, \<lparr>chat_id = cid, from_user = u4, m_text = Vse\<rparr>),
              (e5, \<lparr>chat_id = cid, from_user = u5, m_text = Moi_kontakty\<rparr>)]"
  have ok: "store_ok (sessions w)"
    using reachable_ok [OF assms(1)] by simp
  then have "session_ok s"
    using assms(2) by (rule store_ok_lookup)
  then have s0: "current_question s = 0" "score s = 0"
    using assms(3) by (simp_all add: session_ok_def)
  have len: "length ?ms + length (answers s) = length QUESTIONS"
    by (simp add: assms(3) length_QUESTIONS)
  have all: "list_all (\<lambda>em. chat_id (snd em) = cid \<and> canonical (m_text (snd em))) ?ms"
    by (simp add: canonical_def)
  have ans: "answers (foldl (\<lambda>s em. answered (fst em) (snd em) s) s ?ms) =
      [\<lparr>question_id = ''phone'', answer = Vse, points = 0, timestamp = now e1\<rparr>,
       \<lparr>question_id = ''last_seen'', answer = Moi_kontakty, points = 1, timestamp = now e2\<rparr>,
       \<lparr>question_id = ''profile_photo'', answer = Nikto, points = 2, timestamp = now e3\<rparr>,
       \<lparr>question_id = ''groups'', answer = Vse, points = 0, timestamp = now e4\<rparr>,
       \<lparr>question_id = ''forwarding'', answer = Moi_kontakty, points = 1, timestamp = now e5\<rparr>]"
    by (simp add: answered_def add_answer_def s0 assms(3) QUESTIONS_def POINTS_def
        answers_distinct)
  have sc: "score (foldl (\<lambda>s em. answered (fst em) (snd em) s) s ?ms) = 4"
    by (simp add: answered_def add_answer_def s0 POINTS_def answers_distinct)
  have zip: "filter (\<lambda>p. points (snd p) < 2)
       (zip QUESTIONS (answers (foldl (\<lambda>s em. answered (fst em) (snd em) s) s ?ms))) =
     [(QUESTIONS ! 0, \<lparr>question_id = ''phone'', answer = Vse, points = 0,
                        timestamp = now e1\<rparr>),
      (QUESTIONS ! 1, \<lparr>question_id = ''last_seen'', answer = Moi_kontakty, points = 1,
                        timestamp = now e2\<rparr>),
      (QUESTIONS ! 3, \<lparr>question_id = ''groups'', answer = Vse, points = 0,
                        timestamp = now e4\<rparr>),
      (QUESTIONS ! 4, \<lparr>question_id = ''forwarding'', answer = Moi_kontakty, points = 1,
                        timestamp = now e5\<rparr>)]"
    unfolding ans by (simp add: QUESTIONS_def)
  from answer_all [OF ok assms(2) len all]
  obtain w' out rep where
    "run (map (\<lambda>em. (fst em, Message None (snd em))) ?ms) w = (None, w')"
    "outbox w' = outbox w @ out" "reports out = [rep]"
    "r_score rep = score (foldl (\<lambda>s em. answered (fst em) (snd em) s) s ?ms)"
    "r_weak_points rep = filter (\<lambda>p. points (snd p) < 2)
       (zip QUESTIONS (answers (foldl (\<lambda>s em. answered (fst em) (snd em) s) s ?ms)))"
    by blast
  then have "run (map (\<lambda>em. (fst em, Message None (snd em))) ?ms) w = (None, w') \<and>
      outbox w' = outbox w @ out \<and> reports out = [rep] \<and> r_score rep = 4 \<and>
      r_weak_points rep =
        [(QUESTIONS ! 0, \<lparr>question_id = ''phone'', answer = Vse, points = 0,
                           timestamp = now e1\<rparr>),
         (QUESTIONS ! 1, \<lparr>question_id = ''last_seen'', answer = Moi_kontakty, points = 1,
                           timestamp = now e2\<rparr>),
         (QUESTIONS ! 3, \<lparr>question_id = ''groups'', answer = Vse, points = 0,
                           timestamp = now e4\<rparr>),
         (QUESTIONS ! 4, \<lparr>question_id = ''forwarding'', answer = Moi_kontakty, points = 1,
                           timestamp = now e5\<rparr>)]"
    by (simp only: sc zip)
  then show ?thesis
    by (simp only: list.map fst_conv snd_conv) blast
qed

theorem C9_mixed_answers_report_witness:
  "map_of (sessions (snd (run [example_start] (initial 0)))) 1 = Some (example_session []) \<and>
   answers (example_session []) = [] \<and>
   (\<exists>w' out rep.
      run [example_answer Vse, example_answer Moi_kontakty, example_answer Nikto,
           example_answer Vse, example_answer Moi_kontakty]
        (snd (run [example_start] (initial 0))) = (None, w') \<and>
      outbox w' = outbox (snd (run [example_start] (initial 0))) @ out \<and>
      reports out = [rep] \<and> r_score rep = 4 \<and>
      r_weak_points rep =
        [(QUESTIONS ! 0, example_record 0 Vse 0), (QUESTIONS ! 1, example_record 1 Moi_kontakty 1),
         (QUESTIONS ! 3, example_record 3 Vse 0), (QUESTIONS ! 4, example_record 4 Moi_kontakty 1)])"
proof -
  define w where "w = snd (run [example_start] (initial 0))"
  have run: "run [example_start] (initial 0) = (fst (run [example_start] (initial 0)), w)"
    by (simp add: w_def)
  have a: "map_of (sessions w) 1 = Some (example_session [])"
    unfolding w_def example_run_0 by simp
  have b: "answers (example_session []) = []"
    by (simp add: example_session_def)
  have recs: "example_record 0 Vse 0 =
        \<lparr>question_id = ''phone'', answer = Vse, points = 0, timestamp = now example_env\<rparr>"
      "example_record 1 Moi_kontakty 1 =
        \<lparr>question_id = ''last_seen'', answer = Moi_kontakty, points = 1,
          timestamp = now example_env\<rparr>"
      "example_record 3 Vse 0 =
        \<lparr>question_id = ''groups'', answer = Vse, points = 0, timestamp = now example_env\<rparr>"
      "example_record 4 Moi_kontakty 1 =
        \<lparr>question_id = ''forwarding'', answer = Moi_kontakty, points = 1,
          timestamp = now example_env\<rparr>"
    by (simp_all add: example_record_def example_env_def QUESTIONS_def)
  have c: "\<exists>w' out rep.
      run [example_answer Vse, example_answer Moi_kontakty, example_answer Nikto,
           example_answer Vse, example_answer Moi_kontakty] w = (None, w') \<and>
      outbox w' = outbox w @ out \<and> reports out = [rep] \<and> r_score rep = 4 \<and>
      r_weak_points rep =
        [(QUESTIONS ! 0, example_record 0 Vse 0), (QUESTIONS ! 1, example_record 1 Moi_kontakty 1),
         (QUESTIONS ! 3, example_record 3 Vse 0), (QUESTIONS ! 4, example_record 4 Moi_kontakty 1)]"
    unfolding recs example_answer_def example_message_def
    by (rule C9_mixed_answers_report [OF run a b])
  show ?thesis
    using a b c unfolding w_def by blast
qed


section \<open>The statistics of a completed session (C1)\<close>

text \<open>
  C1, as stated, fails. In the example conversation chat 1 is the only chat and gives five
  times the answer \<open>Nikto\<close>. The statistics sent after its report are one session today,
  mean score 10 and percentile 0: they count the session that has just been completed.
  Over the store without that session, which is empty, they would be 0, 0 and 100.
\<close>

theorem C1_stats_exclude_completed_counterexample:
  "last (outbox (snd (run (example_start #
       map example_answer [Nikto, Nikto, Nikto, Nikto, Nikto]) (initial 0)))) =
     SendMessage 1 (CheckStats 1 10 0) NoMarkup \<and>
   AList.delete 1 (sessions (snd (run (example_start #
       map example_answer [Nikto, Nikto, Nikto, Nikto]) (initial 0)))) = [] \<and>
   sessions_today 0 [] = 0 \<and> calculate_average_score [] = Inr 0 \<and>
   calculate_percentile [] 10 = Inr 100 \<and>
   SendMessage 1 (CheckStats 1 10 0) NoMarkup \<noteq> SendMessage 1 (CheckStats 0 0 100) NoMarkup"
proof -
  have a: "last (outbox (snd (run (example_start #
       map example_answer [Nikto, Nikto, Nikto, Nikto, Nikto]) (initial 0)))) =
     SendMessage 1 (CheckStats 1 10 0) NoMarkup"
    by (rule example_run_5)
  have b: "AList.delete 1 (sessions (snd (run (example_start #
       map example_answer [Nikto, Nikto, Nikto, Nikto]) (initial 0)))) = []"
    unfolding example_run_4 by simp
  have c: "sessions_today 0 [] = 0" "calculate_average_score [] = Inr 0"
      "calculate_percentile [] 10 = Inr 100"
    by (simp_all add: sessions_today_def calculate_average_score_def calculate_percentile_def)
  have d: "SendMessage 1 (CheckStats 1 10 0) NoMarkup \<noteq>
           SendMessage 1 (CheckStats 0 0 100) NoMarkup"
    by simp
  show ?thesis
    by (intro conjI a b c d)
qed

text \<open>
  C1, amended. In a state reached from the empty store while every call of the API
  returns, when the answer handler is given a canonical answer
  to the last question of a chat's session, the statistics it sends last (sessions of
  today, mean score, percentile of the final score) are computed, without an exception,
  over the store in which the chat is still mapped to its completed session; the chat's
  entry is removed from the store only afterward, so the store that the handler returns
  has no entry for the chat.
\<close>

theorem C1_stats_computed_before_removal:
  assumes "run evs (initial t0) = (r, w)"
      and "map_of (sessions w) (chat_id m) = Some s"
      and "canonical (m_text m)"
      and "current_question s + 1 = int (length QUESTIONS)"
  shows "\<exists>out w' avg pct.
           handle_answer e m w = (None, w') \<and>
           calculate_average_score
             (AList.update (chat_id m) (answered e m s) (sessions w)) = Inr avg \<and>
           calculate_percentile
             (AList.update (chat_id m) (answered e m s) (sessions w))
             (score (answered e m s)) = Inr pct \<and>
           outbox w' = outbox w @ out @
             [SendMessage (chat_id m)
                (CheckStats
                   (sessions_today (now e)
                      (AList.update (chat_id m) (answered e m s) (sessions w)))
                   avg pct)
                NoMarkup] \<and>
           map_of (AList.update (chat_id m) (answered e m s) (sessions w)) (chat_id m) =
             Some (answered e m s) \<and>
           is_completed (answered e m s) \<and>
           map_of (sessions w') (chat_id m) = None"
proof -
  have st: "store_ok (sessions w)"
    using reachable_ok [OF assms(1)] by simp
  then have ok: "session_ok s"
    using assms(2) by (rule store_ok_lookup)
  have comp: "is_completed (answered e m s)"
    using assms(4) by (simp add: is_completed_def answered_def add_answer_def)
  from handle_answer_final [OF assms(2) ok assms(3,4) store_ok_scores [OF st], of e]
  obtain rt rep avg pct where
    "calculate_average_score
       (AList.update (chat_id m) (answered e m s) (sessions w)) = Inr avg"
    "calculate_percentile
       (AList.update (chat_id m) (answered e m s) (sessions w))
       (score (answered e m s)) = Inr pct"
    "handle_answer e m w =
       (None, w\<lparr>sessions := AList.delete (chat_id m) (sessions w),
                outbox := outbox w @
                  ([SendMessage (chat_id m)
                     (RiskExplanation (m_text m) rt
                        (q_fix (QUESTIONS ! nat (current_question s))))
                     ReplyKeyboardRemove,
                   SendMessage (chat_id m) (FinalReport rep) ReplyKeyboardRemove] @
                  [SendMessage (chat_id m)
                     (CheckStats
                        (sessions_today (now e)
                           (AList.update (chat_id m) (answered e m s) (sessions w)))
                        avg pct)
                     NoMarkup])\<rparr>)"
    by auto
  then show ?thesis
    using comp by (simp add: update_conv' delete_conv')
qed

theorem C1_stats_computed_before_removal_witness:
  "map_of (sessions (snd (run (example_start # map example_answer [Nikto, Nikto, Nikto, Nikto])
      (initial 0)))) 1 =
     Some (example_session [example_record 0 Nikto 2, example_record 1 Nikto 2,
                            example_record 2 Nikto 2, example_record 3 Nikto 2]) \<and>
   canonical Nikto \<and>
   current_question (example_session [example_record 0 Nikto 2, example_record 1 Nikto 2,
                                      example_record 2 Nikto 2, example_record 3 Nikto 2]) + 1 =
     int (length QUESTIONS) \<and>
   (\<exists>out w'.
      handle_answer example_env (example_message Nikto)
        (snd (run (example_start # map example_answer [Nikto, Nikto, Nikto, Nikto]) (initial 0))) =
        (None, w') \<and>
      outbox w' =
        outbox (snd (run (example_start # map example_answer [Nikto, Nikto, Nikto, Nikto])
                  (initial 0))) @ out @ [SendMessage 1 (CheckStats 1 10 0) NoMarkup] \<and>
      map_of (sessions w') 1 = None)"
proof -
  define w where
    "w = snd (run (example_start # map example_answer [Nikto, Nikto, Nikto, Nikto]) (initial 0))"
  define s where
    "s = example_session [example_record 0 Nikto 2, example_record 1 Nikto 2,
                          example_record 2 Nikto 2, example_record 3 Nikto 2]"
  let ?evs = "example_start # map example_answer [Nikto, Nikto, Nikto, Nikto]"
  let ?m = "example_message Nikto"
  have run: "run ?evs (initial 0) = (fst (run ?evs (initial 0)), w)"
    by (simp add: w_def)
  have m: "chat_id ?m = 1" "m_text ?m = Nikto"
    by (simp_all add: example_message_def)
  have st: "sessions w = [(1, s)]"
    unfolding w_def s_def by (rule example_run_4)
  have a: "map_of (sessions w) 1 = Some s"
    by (simp add: st)
  then have look: "map_of (sessions w) (chat_id ?m) = Some s"
    by (simp only: m)
  have b: "canonical Nikto"
    by (simp add: canonical_def)
  then have can: "canonical (m_text ?m)"
    by (simp only: m)
  have cq: "current_question s + 1 = int (length QUESTIONS)"
    by (simp add: s_def example_session_def length_QUESTIONS)
  have sc: "score (answered example_env ?m s) = 10"
       "start_time (answered example_env ?m s) = 0"
    by (simp_all add: answered_def add_answer_def s_def example_session_def example_record_def
        m POINTS_def answers_distinct)
  have now0: "now example_env = 0"
    by (simp add: example_env_def)
  have stats: "sessions_today (now example_env) [(1, answered example_env ?m s)] = 1"
      "calculate_average_score [(1, answered example_env ?m s)] = Inr 10"
      "calculate_percentile [(1, answered example_env ?m s)] 10 = Inr 0"
    by (simp_all add: sessions_today_def calculate_average_score_def calculate_percentile_def
        sc now0 int_truediv_def small_below_threshold round_double_10 round_double_0)
  from C1_stats_computed_before_removal [OF run look can cq, of example_env]
  have c: "\<exists>out w'.
      handle_answer example_env ?m w = (None, w') \<and>
      outbox w' = outbox w @ out @ [SendMessage 1 (CheckStats 1 10 0) NoMarkup] \<and>
      map_of (sessions w') 1 = None"
    by (auto simp: m st sc stats)
  show ?thesis
    using a b c cq unfolding w_def s_def by blast
qed

end
